theory Spec2Isabelle
  imports Complex_Main
begin

section \<open>Float values as pandas and numpy see them\<close>

text \<open>
  The two scripts (\<^verbatim>\<open>visualize_texas.py\<close>, the basic variant, and
  \<^verbatim>\<open>texas_peaks.py\<close>, the enhanced variant) compute on pandas columns of
  float64 values. A float is modelled as a real number or one of the three special values
  that the scripts handle themselves (\<^verbatim>\<open>fillna\<close>, \<^verbatim>\<open>replace([np.inf, -np.inf], 0)\<close>).
  Rounding, overflow of finite operands and the sign of zero are not modelled: finite
  arithmetic is exact.
\<close>

datatype fval = Fin real | PInf | NInf | NaN

fun is_fin :: "fval \<Rightarrow> bool" where
  "is_fin (Fin _) = True"
| "is_fin _ = False"

fun fneg :: "fval \<Rightarrow> fval" where
  "fneg (Fin a) = Fin (- a)"
| "fneg PInf = NInf"
| "fneg NInf = PInf"
| "fneg NaN = NaN"

fun fadd :: "fval \<Rightarrow> fval \<Rightarrow> fval" where
  "fadd (Fin a) (Fin b) = Fin (a + b)"
| "fadd (Fin a) PInf = PInf"
| "fadd (Fin a) NInf = NInf"
| "fadd PInf (Fin b) = PInf"
| "fadd PInf PInf = PInf"
| "fadd PInf NInf = NaN"
| "fadd NInf (Fin b) = NInf"
| "fadd NInf PInf = NaN"
| "fadd NInf NInf = NInf"
| "fadd NaN _ = NaN"
| "fadd _ NaN = NaN"

definition fsub :: "fval \<Rightarrow> fval \<Rightarrow> fval" where
  "fsub a b = fadd a (fneg b)"

definition inf_of_sign :: "real \<Rightarrow> fval" where
  "inf_of_sign s = (if s = 0 then NaN else if 0 < s then PInf else NInf)"

fun fmul :: "fval \<Rightarrow> fval \<Rightarrow> fval" where
  "fmul (Fin a) (Fin b) = Fin (a * b)"
| "fmul (Fin a) PInf = inf_of_sign a"
| "fmul (Fin a) NInf = inf_of_sign (- a)"
| "fmul PInf (Fin b) = inf_of_sign b"
| "fmul NInf (Fin b) = inf_of_sign (- b)"
| "fmul PInf PInf = PInf"
| "fmul PInf NInf = NInf"
| "fmul NInf PInf = NInf"
| "fmul NInf NInf = PInf"
| "fmul NaN _ = NaN"
| "fmul _ NaN = NaN"

text \<open>
  Division of float columns never raises: a finite non-zero value over zero is an infinity,
  zero over zero and infinity over infinity are NaN.
\<close>

fun fdiv :: "fval \<Rightarrow> fval \<Rightarrow> fval" where
  "fdiv (Fin a) (Fin b) = (if b \<noteq> 0 then Fin (a / b) else inf_of_sign a)"
| "fdiv (Fin a) PInf = Fin 0"
| "fdiv (Fin a) NInf = Fin 0"
| "fdiv PInf (Fin b) = (if 0 \<le> b then PInf else NInf)"
| "fdiv NInf (Fin b) = (if 0 \<le> b then NInf else PInf)"
| "fdiv PInf PInf = NaN"
| "fdiv PInf NInf = NaN"
| "fdiv NInf PInf = NaN"
| "fdiv NInf NInf = NaN"
| "fdiv NaN _ = NaN"
| "fdiv _ NaN = NaN"

text \<open>\<^verbatim>\<open>x ** 1.5\<close> on floats: NaN for a negative finite base.\<close>

fun fpow15 :: "fval \<Rightarrow> fval" where
  "fpow15 (Fin a) = (if a < 0 then NaN else Fin (a powr (3 / 2)))"
| "fpow15 PInf = PInf"
| "fpow15 NInf = PInf"
| "fpow15 NaN = NaN"

text \<open>Float comparison \<^verbatim>\<open>a < b\<close>: false as soon as one side is NaN.\<close>

fun fless :: "fval \<Rightarrow> fval \<Rightarrow> bool" where
  "fless (Fin a) (Fin b) = (a < b)"
| "fless (Fin a) PInf = True"
| "fless NInf (Fin b) = True"
| "fless NInf PInf = True"
| "fless _ _ = False"


subsection \<open>Series reductions and clean-up\<close>

text \<open>
  \<^verbatim>\<open>Series.min()\<close>, \<^verbatim>\<open>max()\<close> and \<^verbatim>\<open>sum()\<close> skip NaN; the minimum and maximum of
  an empty or all-NaN series are NaN, its sum is 0.
\<close>

fun series_min :: "fval list \<Rightarrow> fval" where
  "series_min [] = NaN"
| "series_min (x # xs) =
     (let m = series_min xs in
      if x = NaN then m else if m = NaN then x else if fless x m then x else m)"

fun series_max :: "fval list \<Rightarrow> fval" where
  "series_max [] = NaN"
| "series_max (x # xs) =
     (let m = series_max xs in
      if x = NaN then m else if m = NaN then x else if fless m x then x else m)"

definition series_sum :: "fval list \<Rightarrow> fval" where
  "series_sum xs = foldl fadd (Fin 0) (filter (\<lambda>x. x \<noteq> NaN) xs)"

definition fillna0 :: "fval list \<Rightarrow> fval list" where
  "fillna0 xs = map (\<lambda>x. if x = NaN then Fin 0 else x) xs"

definition replace_inf0 :: "fval list \<Rightarrow> fval list" where
  "replace_inf0 xs = map (\<lambda>x. if x = PInf \<or> x = NInf then Fin 0 else x) xs"

section \<open>Tables\<close>

text \<open>
  A column read from the shapefile is numeric (int64 or float64, NaN where a value is
  missing) or a text column of dtype object (\<^verbatim>\<open>None\<close> where a value is missing). The
  table maps column names to columns, matched by exact name; the centroid coordinates
  \<^verbatim>\<open>lon\<close> and \<^verbatim>\<open>lat\<close>, which both scripts add before anything else, are finite
  and give the number of records.
\<close>

datatype column = NumCol "fval list" | StrCol "string option list"

record table =
  columns :: "string \<rightharpoonup> column"
  lon :: "real list"
  lat :: "real list"

definition nrows :: "table \<Rightarrow> nat" where
  "nrows t = length (lon t)"

fun col_len :: "column \<Rightarrow> nat" where
  "col_len (NumCol xs) = length xs"
| "col_len (StrCol ss) = length ss"

text \<open>Every column of a data frame has one cell per record.\<close>

definition wf_table :: "table \<Rightarrow> bool" where
  "wf_table t \<longleftrightarrow>
     length (lat t) = nrows t \<and> (\<forall>name c. columns t name = Some c \<longrightarrow> col_len c = nrows t)"

datatype py_error = KeyError | TypeError | ValueError

text \<open>
  \<^verbatim>\<open>pd.to_numeric\<close> parses the text cells of an object column. How pandas reads a
  string as a number is a parameter \<open>parse\<close> (\<open>None\<close>: not a number). With
  \<^verbatim>\<open>errors='coerce'\<close> an unreadable cell becomes NaN, with the default
  \<^verbatim>\<open>errors='raise'\<close> it raises ValueError; a missing cell is NaN in both.
\<close>

fun coerce_cell :: "(string \<Rightarrow> fval option) \<Rightarrow> string option \<Rightarrow> fval" where
  "coerce_cell parse None = NaN"
| "coerce_cell parse (Some s) = (case parse s of None \<Rightarrow> NaN | Some v \<Rightarrow> v)"

fun to_numeric_coerce :: "(string \<Rightarrow> fval option) \<Rightarrow> column \<Rightarrow> fval list" where
  "to_numeric_coerce parse (NumCol xs) = xs"
| "to_numeric_coerce parse (StrCol ss) = map (coerce_cell parse) ss"

fun readable :: "(string \<Rightarrow> fval option) \<Rightarrow> string option \<Rightarrow> bool" where
  "readable parse None = True"
| "readable parse (Some s) = (parse s \<noteq> None)"

fun to_numeric_raise :: "(string \<Rightarrow> fval option) \<Rightarrow> column \<Rightarrow> py_error + fval list" where
  "to_numeric_raise parse (NumCol xs) = Inr xs"
| "to_numeric_raise parse (StrCol ss) =
     (if list_all (readable parse) ss then Inr (map (coerce_cell parse) ss) else Inl ValueError)"

text \<open>
  The seeded generator of numpy is a parameter: \<open>np_seed\<close> is the state that
  \<^verbatim>\<open>np.random.seed\<close> installs, \<open>np_rand\<close> and \<open>np_beta\<close> draw a sample of a given
  size from a state and return the state they leave.
\<close>

record 'g numpy_random =
  np_seed :: "nat \<Rightarrow> 'g"
  np_rand :: "'g \<Rightarrow> nat \<Rightarrow> real list \<times> 'g"
  np_beta :: "real \<Rightarrow> real \<Rightarrow> 'g \<Rightarrow> nat \<Rightarrow> real list \<times> 'g"

text \<open>A sample of size \<open>n\<close> has \<open>n\<close> values.\<close>

definition rng_sized :: "'g numpy_random \<Rightarrow> bool" where
  "rng_sized r \<longleftrightarrow>
     (\<forall>g n. length (fst (np_rand r g n)) = n) \<and>
     (\<forall>a b g n. length (fst (np_beta r a b g n)) = n)"

text \<open>The first name of an ordered candidate list that passes a test (a loop with \<^verbatim>\<open>break\<close>).\<close>

fun first_candidate :: "(string \<Rightarrow> bool) \<Rightarrow> string list \<Rightarrow> string option" where
  "first_candidate ok [] = None"
| "first_candidate ok (c # cs) = (if ok c then Some c else first_candidate ok cs)"

definition has_column :: "table \<Rightarrow> string \<Rightarrow> bool" where
  "has_column t c \<longleftrightarrow> columns t c \<noteq> None"

section \<open>The basic variant: \<^verbatim>\<open>visualize_texas.py\<close>\<close>

subsection \<open>Metric Deriver\<close>

definition potential_pop_cols :: "string list" where
  "potential_pop_cols = [''POP'', ''POP100'', ''POP20'']"

definition potential_area_cols :: "string list" where
  "potential_area_cols = [''ALAND'']"

definition population_col :: "table \<Rightarrow> string option" where
  "population_col t = first_candidate (has_column t) potential_pop_cols"

text \<open>An area column counts only with a numeric dtype and a positive sum.\<close>

definition valid_area :: "table \<Rightarrow> string \<Rightarrow> bool" where
  "valid_area t c =
     (case columns t c of
        Some (NumCol xs) \<Rightarrow> fless (Fin 0) (series_sum xs)
      | _ \<Rightarrow> False)"

definition area_col :: "table \<Rightarrow> string option" where
  "area_col t = first_candidate (valid_area t) potential_area_cols"

text \<open>
  Population per square kilometre, the area being in square metres. \<open>density_of\<close> is the
  density after \<^verbatim>\<open>fillna(0)\<close> and after the replacement of both infinities with 0,
  assigned back to the column.
\<close>

definition per_km2 :: "fval \<Rightarrow> fval \<Rightarrow> fval" where
  "per_km2 p a = fdiv p (fdiv a (Fin 1000000))"

definition density_of :: "fval list \<Rightarrow> fval list \<Rightarrow> fval list" where
  "density_of ps as = replace_inf0 (fillna0 (map2 per_km2 ps as))"

text \<open>
  Line 100 of the basic variant does not assign the replaced column: it calls
  \<^verbatim>\<open>gdf['density'].replace([np.inf, -np.inf], 0, inplace=True)\<close> on the column that
  the frame hands out. Whether that reaches the frame depends on pandas, and is the
  parameter \<open>cow\<close>: with copy-on-write (pandas 3) the frame hands out a copy and keeps
  its infinities, without it (pandas 2) the column of the frame is replaced.
\<close>

definition replace_in_place :: "bool \<Rightarrow> fval list \<Rightarrow> fval list" where
  "replace_in_place cow xs = (if cow then xs else replace_inf0 xs)"

text \<open>
  The density branch divides the population column as it is. On a text column pandas
  divides the cells that are present on both sides, and a string over a float raises
  TypeError; cells with a missing side are NaN.
\<close>

fun basic_density :: "bool \<Rightarrow> column \<Rightarrow> fval list \<Rightarrow> py_error + fval list" where
  "basic_density cow (NumCol ps) as = Inr (replace_in_place cow (fillna0 (map2 per_km2 ps as)))"
| "basic_density cow (StrCol ss) as =
     (if list_ex (\<lambda>(s, a). s \<noteq> None \<and> fdiv a (Fin 1000000) \<noteq> NaN) (zip ss as)
      then Inl TypeError
      else Inr (replace_in_place cow (fillna0 (map (\<lambda>_. NaN) (zip ss as)))))"

text \<open>
  The deriver returns the name of the column that holds the derived metric
  (\<^verbatim>\<open>height_col\<close>), the metric of every record, and the generator state it leaves.
\<close>

definition derive_metric ::
  "bool \<Rightarrow> 'g numpy_random \<Rightarrow> (string \<Rightarrow> fval option) \<Rightarrow> 'g \<Rightarrow> table \<Rightarrow>
     py_error + (string \<times> fval list \<times> 'g)" where
  "derive_metric cow r parse g t =
     (case population_col t of
        Some pc \<Rightarrow>
          (case columns t pc of
             None \<Rightarrow> Inl KeyError
           | Some pcol \<Rightarrow>
               (case area_col t of
                  Some ac \<Rightarrow>
                    (case columns t ac of
                       None \<Rightarrow> Inl KeyError
                     | Some acol \<Rightarrow>
                         (case basic_density cow pcol (to_numeric_coerce parse acol) of
                            Inl e \<Rightarrow> Inl e
                          | Inr d \<Rightarrow> Inr (''density'', d, g)))
                | None \<Rightarrow> Inr (pc, fillna0 (to_numeric_coerce parse pcol), g)))
      | None \<Rightarrow>
          (let (us, g') = np_rand r (np_seed r 42) (nrows t)
           in Inr (''simulated_height'', map (\<lambda>u. Fin (u * 1000)) us, g')))"

subsection \<open>Height Normalizer\<close>

definition z_height :: "fval list \<Rightarrow> fval list" where
  "z_height hs =
     (let min_h = series_min hs; max_h = series_max hs in
      if fless min_h max_h
      then map (\<lambda>h. fmul (fpow15 (fdiv (fsub h min_h) (fsub max_h min_h))) (Fin 100)) hs
      else replicate (length hs) (Fin 50))"

definition basic_pipeline ::
  "bool \<Rightarrow> 'g numpy_random \<Rightarrow> (string \<Rightarrow> fval option) \<Rightarrow> 'g \<Rightarrow> table \<Rightarrow>
     py_error + (string \<times> fval list \<times> fval list)" where
  "basic_pipeline cow r parse g t =
     (case derive_metric cow r parse g t of
        Inl e \<Rightarrow> Inl e
      | Inr (height_col, metric, g') \<Rightarrow> Inr (height_col, metric, z_height metric))"

section \<open>The enhanced variant: \<^verbatim>\<open>texas_peaks.py\<close>\<close>

subsection \<open>Metric Deriver\<close>

definition pop_candidates :: "string list" where
  "pop_candidates = [''POP100'', ''POP20'', ''POP'']"

definition area_candidates :: "string list" where
  "area_candidates = [''ALAND'']"

definition pop_col :: "table \<Rightarrow> string option" where
  "pop_col t = first_candidate (has_column t) pop_candidates"

definition area_col_enh :: "table \<Rightarrow> string option" where
  "area_col_enh t = first_candidate (has_column t) area_candidates"

text \<open>
  The deriver returns \<^verbatim>\<open>value_col\<close> and the metric of every record. Both columns of
  the density go through \<^verbatim>\<open>pd.to_numeric\<close> with its default \<^verbatim>\<open>errors='raise'\<close>;
  without a population column the metric is the scalar 0 in every record.
\<close>

definition derive_value ::
  "(string \<Rightarrow> fval option) \<Rightarrow> table \<Rightarrow> py_error + (string \<times> fval list)" where
  "derive_value parse t =
     (case (pop_col t, area_col_enh t) of
        (Some pc, Some ac) \<Rightarrow>
          (case (columns t pc, columns t ac) of
             (Some pcol, Some acol) \<Rightarrow>
               (case to_numeric_raise parse pcol of
                  Inl e \<Rightarrow> Inl e
                | Inr ps \<Rightarrow>
                    (case to_numeric_raise parse acol of
                       Inl e \<Rightarrow> Inl e
                     | Inr as \<Rightarrow> Inr (''density'', density_of ps as)))
           | _ \<Rightarrow> Inl KeyError)
      | (Some pc, None) \<Rightarrow>
          (case columns t pc of
             None \<Rightarrow> Inl KeyError
           | Some pcol \<Rightarrow>
               (case to_numeric_raise parse pcol of
                  Inl e \<Rightarrow> Inl e
                | Inr ps \<Rightarrow> Inr (''population'', ps)))
      | (None, _) \<Rightarrow> Inr (''population'', replicate (nrows t) (Fin 0)))"

subsection \<open>Height Normalizer\<close>

definition wave1 :: "real \<Rightarrow> real \<Rightarrow> real" where
  "wave1 lo la = sin (lo * 3) * cos (la * 3) * 0.15"

definition wave2 :: "real \<Rightarrow> real \<Rightarrow> real" where
  "wave2 lo la = sin (la * 5) * cos (lo * 2) * 0.1"

definition wave :: "real \<Rightarrow> real \<Rightarrow> real" where
  "wave lo la = wave1 lo la + wave2 lo la"

text \<open>\<^verbatim>\<open>np.random.seed(42)\<close>, then one Beta(2, 5) draw per record, scaled by 0.2.\<close>

definition terrain :: "'g numpy_random \<Rightarrow> 'g \<Rightarrow> nat \<Rightarrow> real list" where
  "terrain r g n = map (\<lambda>u. u * 0.2) (fst (np_beta r 2 5 (np_seed r 42) n))"

text \<open>The height of line 66, before the second pass.\<close>

definition raw_height :: "fval \<Rightarrow> fval \<Rightarrow> real \<Rightarrow> real \<Rightarrow> real \<Rightarrow> fval" where
  "raw_height max_val v lo la tn =
     fadd (fadd (fmul (fdiv v max_val) (Fin 0.85)) (Fin (wave lo la))) (Fin tn)"

definition raw_heights :: "'g numpy_random \<Rightarrow> 'g \<Rightarrow> table \<Rightarrow> fval list \<Rightarrow> fval list" where
  "raw_heights r g t vs =
     map (\<lambda>(v, lo, la, tn). raw_height (series_max vs) v lo la tn)
       (zip vs (zip (lon t) (zip (lat t) (terrain r g (nrows t)))))"

text \<open>The second pass of line 67: min-max over the whole column, with no guard.\<close>

definition min_max :: "fval list \<Rightarrow> fval list" where
  "min_max hs =
     map (\<lambda>h. fdiv (fsub h (series_min hs)) (fsub (series_max hs) (series_min hs))) hs"

definition height :: "'g numpy_random \<Rightarrow> 'g \<Rightarrow> table \<Rightarrow> fval list \<Rightarrow> fval list" where
  "height r g t vs = min_max (raw_heights r g t vs)"

definition enhanced_pipeline ::
  "'g numpy_random \<Rightarrow> (string \<Rightarrow> fval option) \<Rightarrow> 'g \<Rightarrow> table \<Rightarrow> py_error + (string \<times> fval list \<times> fval list)" where
  "enhanced_pipeline r parse g t =
     (case derive_value parse t of
        Inl e \<Rightarrow> Inl e
      | Inr (value_col, vs) \<Rightarrow> Inr (value_col, vs, height r g t vs))"

subsection \<open>Palette generator\<close>

text \<open>\<^verbatim>\<open>int(x)\<close> truncates towards zero.\<close>

definition py_int :: "real \<Rightarrow> int" where
  "py_int x = (if 0 \<le> x then \<lfloor>x\<rfloor> else \<lceil>x\<rceil>)"

text \<open>\<^verbatim>\<open>colorsys.hsv_to_rgb\<close> of the Python standard library.\<close>

definition hsv_to_rgb :: "real \<Rightarrow> real \<Rightarrow> real \<Rightarrow> real \<times> real \<times> real" where
  "hsv_to_rgb h s v =
     (if s = 0 then (v, v, v)
      else
        let i = py_int (h * 6);
            f = h * 6 - of_int i;
            p = v * (1 - s);
            q = v * (1 - s * f);
            t = v * (1 - s * (1 - f));
            j = i mod 6
        in if j = 0 then (v, t, p)
           else if j = 1 then (q, v, p)
           else if j = 2 then (p, v, t)
           else if j = 3 then (p, q, v)
           else if j = 4 then (t, p, v)
           else (v, p, q))"

text \<open>The hue, saturation and value of stop \<open>i\<close> of \<open>n_colors\<close>.\<close>

definition stop_hsv :: "nat \<Rightarrow> nat \<Rightarrow> real \<times> real \<times> real" where
  "stop_hsv n_colors i =
     (if real i < real n_colors / 2
      then (0.7 - real i / (real n_colors / 2) * 0.15,
            0.7 + real i / (real n_colors / 2) * 0.3,
            0.5 + real i / (real n_colors / 2) * 0.5)
      else (0.55 - (real i - real n_colors / 2) / (real n_colors / 2) * 0.35, 1, 1))"

definition stop_rgb :: "nat \<Rightarrow> nat \<Rightarrow> int \<times> int \<times> int" where
  "stop_rgb n_colors i =
     (let (h, s, v) = stop_hsv n_colors i;
          (r, g, b) = hsv_to_rgb h s v
      in (py_int (r * 255), py_int (g * 255), py_int (b * 255)))"

text \<open>The decimal digits of an integer, and the text \<^verbatim>\<open>rgb(r,g,b)\<close> of a colour.\<close>

fun str_nat :: "nat \<Rightarrow> string" where
  "str_nat n =
     (if n < 10 then [''0123456789'' ! n]
      else str_nat (n div 10) @ [''0123456789'' ! (n mod 10)])"

declare str_nat.simps [simp del]

definition str_int :: "int \<Rightarrow> string" where
  "str_int k = (if k < 0 then CHR ''-'' # str_nat (nat (- k)) else str_nat (nat k))"

definition rgb_string :: "int \<times> int \<times> int \<Rightarrow> string" where
  "rgb_string c =
     (case c of (r, g, b) \<Rightarrow>
        ''rgb('' @ str_int r @ '','' @ str_int g @ '','' @ str_int b @ '')'')"

definition generate_colors :: "nat \<Rightarrow> string list" where
  "generate_colors n_colors = map (\<lambda>i. rgb_string (stop_rgb n_colors i)) [0..<n_colors]"

section \<open>Acquisition and loading in \<^verbatim>\<open>visualize_texas.py\<close>\<close>

text \<open>
  What the file system, the network and geopandas answer is the environment of a run.
  \<open>makedirs\<close> and \<open>read_file\<close> give the text of the exception they raise, if any; a
  download ends extracted, or with one of the exceptions that the script tells apart:
  a request error, \<^verbatim>\<open>BadZipFile\<close> on opening the archive (\<open>BadZipFile\<close>) or on
  extracting an entry of it (\<open>BadZipEntry\<close>), or another exception while extracting.
  \<open>read_file\<close> gives the coordinate reference system and the table, its centroids
  already in EPSG:4326.
\<close>

datatype download_outcome =
  Extracted
| RequestException string
| BadZipFile
| BadZipEntry
| ExtractError string

record world =
  folder_exists :: bool
  shapefile_exists :: bool
  makedirs :: "string option"
  download :: download_outcome
  read_file :: "string + (string \<times> table)"

definition shapefile_url :: string where
  "shapefile_url = ''https://www2.census.gov/geo/tiger/TIGER2024/BG/tl_2024_48_bg.zip''"

definition extract_to_folder :: string where
  "extract_to_folder = ''texas_bg_shapefile_2024''"

definition shapefile_name :: string where
  "shapefile_name = ''tl_2024_48_bg.shp''"

definition shapefile_path :: string where
  "shapefile_path = extract_to_folder @ ''/'' @ shapefile_name"

definition output_html_file :: string where
  "output_html_file = ''texas_block_group_density_3d.html''"

text \<open>
  The download step of the \<^verbatim>\<open>try\<close> block: the lines it prints, and whether the run
  goes on (every \<^verbatim>\<open>except\<close> handler prints one line and calls \<^verbatim>\<open>exit()\<close>).
\<close>

definition fetch :: "world \<Rightarrow> string list \<times> bool" where
  "fetch w =
     (if \<not> shapefile_exists w then
        (case download w of
           Extracted \<Rightarrow>
             ([''Extracting files to: '' @ extract_to_folder,
               ''Download and extraction complete.''], True)
         | RequestException e \<Rightarrow> ([''Error downloading file: '' @ e], False)
         | BadZipFile \<Rightarrow> ([''Error: Downloaded file is not a valid ZIP archive.''], False)
         | BadZipEntry \<Rightarrow>
             ([''Extracting files to: '' @ extract_to_folder,
               ''Error: Downloaded file is not a valid ZIP archive.''], False)
         | ExtractError e \<Rightarrow>
             ([''Extracting files to: '' @ extract_to_folder,
               ''An unexpected error occurred during download/extraction: '' @ e], False))
      else
        ([''Shapefile '' @ [CHR 0x27] @ shapefile_name @ [CHR 0x27] @ '' already exists in '' @
          [CHR 0x27] @ extract_to_folder @ [CHR 0x27] @ ''. Skipping download.''], True))"

definition acquire :: "world \<Rightarrow> string list \<times> bool" where
  "acquire w =
     (let start = [''Attempting to download shapefile from: '' @ shapefile_url] in
      if \<not> folder_exists w then
        (case makedirs w of
           Some e \<Rightarrow>
             (start @ [''An unexpected error occurred during download/extraction: '' @ e], False)
         | None \<Rightarrow>
             (let (out, go) = fetch w
              in (start @ [''Created directory: '' @ extract_to_folder] @ out, go)))
      else (let (out, go) = fetch w in (start @ out, go)))"

definition load :: "world \<Rightarrow> string list \<times> table option" where
  "load w =
     (let start = [''Loading shapefile: '' @ shapefile_path] in
      case read_file w of
        Inl e \<Rightarrow> (start @ [''Error loading shapefile: '' @ e], None)
      | Inr (crs, t) \<Rightarrow>
          (start @ [''Shapefile loaded successfully.'', ''Original CRS: '' @ crs], Some t))"

text \<open>
  A run ends in \<^verbatim>\<open>exit()\<close>, in an exception that nothing catches, or with the plot of
  the derived metric and the heights written to the output file. The console lines kept
  are those of the acquisition and loading steps; the progress messages after them are
  left out.
\<close>

datatype run_result =
  Exited "string list"
| Raised py_error "string list"
| Saved "string list" string "string \<times> fval list \<times> fval list"

definition run_basic ::
  "bool \<Rightarrow> 'g numpy_random \<Rightarrow> (string \<Rightarrow> fval option) \<Rightarrow> 'g \<Rightarrow> world \<Rightarrow> run_result" where
  "run_basic cow r parse g w =
     (case acquire w of
        (out, False) \<Rightarrow> Exited out
      | (out, True) \<Rightarrow>
          (case load w of
             (out', None) \<Rightarrow> Exited (out @ out')
           | (out', Some t) \<Rightarrow>
               (case basic_pipeline cow r parse g t of
                  Inl e \<Rightarrow> Raised e (out @ out')
                | Inr plot \<Rightarrow> Saved (out @ out') output_html_file plot)))"

section \<open>Predicates of the specification\<close>

text \<open>A colour is a valid RGB triple when each component lies in 0..255.\<close>

definition valid_rgb :: "int \<times> int \<times> int \<Rightarrow> bool" where
  "valid_rgb c =
     (case c of (r, g, b) \<Rightarrow> 0 \<le> r \<and> r \<le> 255 \<and> 0 \<le> g \<and> g \<le> 255 \<and> 0 \<le> b \<and> b \<le> 255)"

text \<open>A cool colour has blue as its strongest component, a warm one more red than blue.\<close>

definition cool_rgb :: "int \<times> int \<times> int \<Rightarrow> bool" where
  "cool_rgb c = (case c of (r, g, b) \<Rightarrow> r < b \<and> g < b)"

definition warm_rgb :: "int \<times> int \<times> int \<Rightarrow> bool" where
  "warm_rgb c = (case c of (r, g, b) \<Rightarrow> b < r)"

text \<open>
  The first candidate present: \<open>sel\<close> is the first name of the list \<open>cs\<close> that passes
  the test, or nothing when no name of the list does.
\<close>

definition first_present :: "(string \<Rightarrow> bool) \<Rightarrow> string list \<Rightarrow> string option \<Rightarrow> bool" where
  "first_present ok cs sel =
     (case sel of
        None \<Rightarrow> (\<forall>k<length cs. \<not> ok (cs ! k))
      | Some c \<Rightarrow> (\<exists>k<length cs. cs ! k = c \<and> ok c \<and> (\<forall>j<k. \<not> ok (cs ! j))))"

text \<open>The wave of the specification: two sinusoidal terms of the centroid.\<close>

definition spec_wave :: "real \<Rightarrow> real \<Rightarrow> real" where
  "spec_wave lo la = sin (lo * 3) * cos (la * 3) * 0.15 + sin (la * 5) * cos (lo * 2) * 0.1"

text \<open>The Beta(2, 5) sample of the seed 42, one value per record.\<close>

definition beta_noise :: "'g numpy_random \<Rightarrow> nat \<Rightarrow> real list" where
  "beta_noise r n = fst (np_beta r 2 5 (np_seed r 42) n)"

text \<open>
  The folder is there when it existed or could be made; the shapefile is acquired when,
  besides, it was cached or the download ended extracted.
\<close>

definition created :: "world \<Rightarrow> bool" where
  "created w \<longleftrightarrow> folder_exists w \<or> makedirs w = None"

definition acquired :: "world \<Rightarrow> bool" where
  "acquired w \<longleftrightarrow> created w \<and> (shapefile_exists w \<or> download w = Extracted)"

text \<open>
  The inputs on which the density is computed from numbers: whenever a population column
  and a valid area column are both selected, the population column is not a text column.
\<close>

definition numeric_density_input :: "table \<Rightarrow> bool" where
  "numeric_density_input t \<longleftrightarrow>
     (\<forall>pc ac ss. population_col t = Some pc \<and> area_col t = Some ac \<longrightarrow> columns t pc \<noteq> Some (StrCol ss))"

text \<open>The power curve of the basic heights between a least value \<open>lo\<close> and a greatest value \<open>hi\<close>.\<close>

definition curve :: "real \<Rightarrow> real \<Rightarrow> real \<Rightarrow> real" where
  "curve lo hi x = ((x - lo) / (hi - lo)) powr (3 / 2) * 100"

section \<open>Concrete inputs\<close>

text \<open>
  A small generator for running the definitions: the state is a counter, a draw of size
  \<open>n\<close> reads \<open>n\<close> values off it.
\<close>

definition counter_rng :: "nat numpy_random" where
  "counter_rng =
     \<lparr>np_seed = (\<lambda>s. s),
      np_rand = (\<lambda>g n. (map (\<lambda>k. real ((g + k) mod 10) / 10) [0..<n], g + n)),
      np_beta = (\<lambda>a b g n. (map (\<lambda>k. real ((g + k) mod 7) / 7) [0..<n], g + n))\<rparr>"

text \<open>A reader of numbers that knows two strings.\<close>

definition parse_demo :: "string \<Rightarrow> fval option" where
  "parse_demo s = (if s = ''100'' then Some (Fin 100) else if s = ''200'' then Some (Fin 200) else None)"

text \<open>The end-to-end scenario of the specification: three regions with population and area.\<close>

definition scenario_table :: table where
  "scenario_table =
     \<lparr>columns = [''POP100'' \<mapsto> NumCol [Fin 100, Fin 200, Fin 0],
                 ''ALAND'' \<mapsto> NumCol [Fin 1000000, Fin 2000000, Fin 500000]],
      lon = [-97, -98, -99], lat = [30, 31, 32]\<rparr>"

text \<open>A table as the TIGER/Line block group file gives it: land area, no population count.\<close>

definition no_population_table :: table where
  "no_population_table =
     \<lparr>columns = [''GEOID'' \<mapsto> StrCol [Some ''480019501001'', Some ''480019501002''],
                 ''ALAND'' \<mapsto> NumCol [Fin 1000000, Fin 2000000]],
      lon = [-97, -98], lat = [30, 31]\<rparr>"

definition single_record_table :: table where
  "single_record_table =
     \<lparr>columns = [''POP100'' \<mapsto> NumCol [Fin 100], ''ALAND'' \<mapsto> NumCol [Fin 1000000]],
      lon = [-97], lat = [30]\<rparr>"

text \<open>A region without land area and a region without a population count.\<close>

definition zero_area_table :: table where
  "zero_area_table =
     \<lparr>columns = [''POP100'' \<mapsto> NumCol [Fin 100, Fin 50, NaN],
                 ''ALAND'' \<mapsto> NumCol [Fin 1000000, Fin 0, Fin 2000000]],
      lon = [0, 0, 0], lat = [0, 0, 0]\<rparr>"

text \<open>A land area column that sums to zero, and columns whose names differ in case only.\<close>

definition invalid_area_table :: table where
  "invalid_area_table =
     \<lparr>columns = [''POP100'' \<mapsto> NumCol [Fin 5, Fin 7], ''ALAND'' \<mapsto> NumCol [Fin 0, Fin 0]],
      lon = [0, 0], lat = [0, 0]\<rparr>"

definition lower_case_table :: table where
  "lower_case_table =
     \<lparr>columns = [''pop100'' \<mapsto> NumCol [Fin 5, Fin 7], ''Aland'' \<mapsto> NumCol [Fin 1, Fin 2]],
      lon = [0, 0], lat = [0, 0]\<rparr>"

text \<open>A population column with a missing count, and one kept as text.\<close>

definition missing_population_table :: table where
  "missing_population_table =
     \<lparr>columns = [''POP100'' \<mapsto> NumCol [NaN, Fin 5]], lon = [0, 0], lat = [0, 0]\<rparr>"

definition text_population_table :: table where
  "text_population_table =
     \<lparr>columns = [''POP'' \<mapsto> StrCol [Some ''100'', Some ''unknown'', None, Some ''200'']],
      lon = [0, 0, 0, 0], lat = [0, 0, 0, 0]\<rparr>"

text \<open>Two regions at the origin, where the wave vanishes.\<close>

definition origin_table :: table where
  "origin_table =
     \<lparr>columns = [''POP100'' \<mapsto> NumCol [Fin 100, Fin 200]], lon = [0, 0], lat = [0, 0]\<rparr>"

text \<open>
  Three environments: a download that is not an archive, a cached shapefile that
  geopandas cannot read, and a successful download of a table without population.
\<close>

definition world_bad_zip :: world where
  "world_bad_zip =
     \<lparr>folder_exists = False, shapefile_exists = False, makedirs = None, download = BadZipFile,
      read_file = Inl ''not reached''\<rparr>"

definition world_unreadable :: world where
  "world_unreadable =
     \<lparr>folder_exists = True, shapefile_exists = True, makedirs = None, download = Extracted,
      read_file = Inl ''Unable to open tl_2024_48_bg.shx''\<rparr>"

definition world_tiger :: world where
  "world_tiger =
     \<lparr>folder_exists = True, shapefile_exists = False, makedirs = None, download = Extracted,
      read_file = Inr (''EPSG:4269'', no_population_table)\<rparr>"

section \<open>The palette\<close>

lemma py_int_255: "0 \<le> c \<Longrightarrow> c \<le> 1 \<Longrightarrow> 0 \<le> py_int (c * 255) \<and> py_int (c * 255) \<le> 255"
proof -
  assume c: "0 \<le> c" "c \<le> 1"
  then have "0 \<le> c * 255" "c * 255 \<le> 255" by simp_all
  then show ?thesis unfolding py_int_def by (simp add: floor_le_iff le_floor_iff)
qed

lemma unit_mult:
  "0 \<le> (a::real) \<Longrightarrow> a \<le> 1 \<Longrightarrow> 0 \<le> b \<Longrightarrow> b \<le> 1 \<Longrightarrow> 0 \<le> a * b \<and> a * b \<le> 1"
  by (simp add: mult_le_one)

lemma unit_compl: "0 \<le> (a::real) \<Longrightarrow> a \<le> 1 \<Longrightarrow> 0 \<le> 1 - a \<and> 1 - a \<le> 1"
  by simp

text \<open>With a hue that is not negative, the conversion stays in the unit cube.\<close>

lemma hsv_to_rgb_unit:
  assumes h: "0 \<le> h" and s: "0 \<le> s" "s \<le> 1" and v: "0 \<le> v" "v \<le> 1"
    and eq: "hsv_to_rgb h s v = (r, g, b)"
  shows "0 \<le> r \<and> r \<le> 1 \<and> 0 \<le> g \<and> g \<le> 1 \<and> 0 \<le> b \<and> b \<le> 1"
proof -
  define f where "f = h * 6 - of_int (py_int (h * 6))"
  have "0 \<le> h * 6" using h by simp
  then have pi: "py_int (h * 6) = \<lfloor>h * 6\<rfloor>" by (simp add: py_int_def)
  have f: "0 \<le> f" "f \<le> 1" unfolding f_def pi by linarith+
  have p: "0 \<le> v * (1 - s) \<and> v * (1 - s) \<le> 1"
    using unit_mult [OF v] unit_compl [OF s] by simp
  have sf: "0 \<le> s * f \<and> s * f \<le> 1" using unit_mult [OF s f] .
  have q: "0 \<le> v * (1 - s * f) \<and> v * (1 - s * f) \<le> 1"
    using unit_mult [OF v] unit_compl sf by simp
  have sf': "0 \<le> s * (1 - f) \<and> s * (1 - f) \<le> 1"
    using unit_mult [OF s] unit_compl [OF f] by simp
  have t: "0 \<le> v * (1 - s * (1 - f)) \<and> v * (1 - s * (1 - f)) \<le> 1"
    using unit_mult [OF v] unit_compl sf' by simp
  show ?thesis
    using eq p q t v unfolding hsv_to_rgb_def Let_def f_def [symmetric]
    by (auto split: if_splits)
qed

lemma stop_hsv_unit:
  assumes "i < n" and eq: "stop_hsv n i = (h, s, v)"
  shows "0 \<le> h \<and> 0 \<le> s \<and> s \<le> 1 \<and> 0 \<le> v \<and> v \<le> 1"
proof (cases "real i < real n / 2")
  case True
  define x where "x = real i / (real n / 2)"
  have n: "0 < real n / 2" using assms by simp
  have x: "0 \<le> x" "x < 1" unfolding x_def using True n by simp_all
  have "h = 0.7 - x * 0.15" "s = 0.7 + x * 0.3" "v = 0.5 + x * 0.5"
    using eq True by (simp_all add: stop_hsv_def x_def)
  then show ?thesis using x by simp
next
  case False
  define y where "y = (real i - real n / 2) / (real n / 2)"
  have n: "0 < real n / 2" using assms by simp
  have "real i < real n" using assms by simp
  then have y: "0 \<le> y" "y < 1" unfolding y_def using False n by simp_all
  have "h = 0.55 - y * 0.35" "s = 1" "v = 1"
    using eq False by (simp_all add: stop_hsv_def y_def)
  then show ?thesis using y by simp
qed

lemma stop_rgb_valid: "i < n \<Longrightarrow> valid_rgb (stop_rgb n i)"
proof -
  assume i: "i < n"
  obtain h s v where hsv: "stop_hsv n i = (h, s, v)" by (cases "stop_hsv n i") auto
  obtain r g b where rgb: "hsv_to_rgb h s v = (r, g, b)" by (cases "hsv_to_rgb h s v") auto
  have u: "0 \<le> h \<and> 0 \<le> s \<and> s \<le> 1 \<and> 0 \<le> v \<and> v \<le> 1" using stop_hsv_unit [OF i hsv] .
  have c: "0 \<le> r \<and> r \<le> 1 \<and> 0 \<le> g \<and> g \<le> 1 \<and> 0 \<le> b \<and> b \<le> 1"
    using hsv_to_rgb_unit [OF _ _ _ _ _ rgb] u by simp
  show ?thesis
    using c py_int_255 [of r] py_int_255 [of g] py_int_255 [of b]
    by (simp add: stop_rgb_def hsv rgb valid_rgb_def)
qed

lemma first_stop_150: "stop_rgb 150 0 = (56, 38, 127)"
  by (simp add: stop_rgb_def stop_hsv_def hsv_to_rgb_def py_int_def Let_def)

lemma last_stop_150: "stop_rgb 150 149 = (196, 255, 0)"
  by (simp add: stop_rgb_def stop_hsv_def hsv_to_rgb_def py_int_def Let_def)

text \<open>
  Claim C8. The palette is a function of the stop count alone. For every count \<open>n\<close>, and
  so for 150, it has exactly \<open>n\<close> entries, and entry \<open>i\<close> is the text of an RGB triple
  whose components lie in 0..255. With 150 stops the first colour is (56, 38, 127), a cool
  colour of hue 0.7, and the last is (196, 255, 0), a warm colour taken from the second
  ramp.
\<close>

theorem generate_colors_palette:
  "length (generate_colors n) = n \<and>
   (\<forall>i<n. generate_colors n ! i = rgb_string (stop_rgb n i) \<and> valid_rgb (stop_rgb n i)) \<and>
   length (generate_colors 150) = 150 \<and>
   fst (stop_hsv 150 0) = 7 / 10 \<and> stop_rgb 150 0 = (56, 38, 127) \<and> cool_rgb (stop_rgb 150 0) \<and>
   \<not> real 149 < real 150 / 2 \<and> stop_rgb 150 149 = (196, 255, 0) \<and> warm_rgb (stop_rgb 150 149)"
proof -
  have "\<forall>i<n. generate_colors n ! i = rgb_string (stop_rgb n i) \<and> valid_rgb (stop_rgb n i)"
    by (simp add: generate_colors_def stop_rgb_valid)
  moreover have "fst (stop_hsv 150 0) = 7 / 10" by (simp add: stop_hsv_def)
  moreover have "cool_rgb (stop_rgb 150 0)" by (simp add: first_stop_150 cool_rgb_def)
  moreover have "warm_rgb (stop_rgb 150 149)" by (simp add: last_stop_150 warm_rgb_def)
  ultimately show ?thesis
    by (simp add: generate_colors_def first_stop_150 last_stop_150)
qed

theorem generate_colors_palette_witness:
  "length (generate_colors 150) = 150 \<and>
   generate_colors 150 ! 149 = ''rgb(196,255,0)'' \<and> valid_rgb (196, 255, 0) \<and>
   generate_colors 150 ! 0 = ''rgb(56,38,127)'' \<and> valid_rgb (56, 38, 127)"
proof -
  have len: "length (generate_colors 150) = 150"
    by (rule conjunct1 [OF generate_colors_palette [of 150]])
  have every: "\<forall>i<150. generate_colors 150 ! i = rgb_string (stop_rgb 150 i) \<and>
      valid_rgb (stop_rgb 150 i)"
    by (rule conjunct1 [OF conjunct2 [OF generate_colors_palette [of 150]]])
  have a: "generate_colors 150 ! 149 = rgb_string (stop_rgb 150 149) \<and> valid_rgb (stop_rgb 150 149)"
    using every by (elim allE [of _ 149]) simp
  have b: "generate_colors 150 ! 0 = rgb_string (stop_rgb 150 0) \<and> valid_rgb (stop_rgb 150 0)"
    using every by (elim allE [of _ 0]) simp
  have c: "rgb_string (196, 255, 0) = ''rgb(196,255,0)''"
    "rgb_string (56, 38, 127) = ''rgb(56,38,127)''"
    by (simp_all add: rgb_string_def str_int_def str_nat.simps)
  show ?thesis
    using len a b by (simp add: first_stop_150 last_stop_150 c)
qed

section \<open>Determinism\<close>

text \<open>
  Claim C7. Both variants are deterministic. A run starts in whatever state the global
  generator of numpy is in; the derived metric and the heights of the basic and of the
  enhanced pipeline do not depend on that state, since every draw is made right after
  \<^verbatim>\<open>np.random.seed(42)\<close>. Two runs on the same table give the same values.
\<close>

theorem pipelines_deterministic:
  "basic_pipeline cow r parse g1 t = basic_pipeline cow r parse g2 t \<and>
   enhanced_pipeline r parse g1 t = enhanced_pipeline r parse g2 t"
  by (simp add: basic_pipeline_def derive_metric_def enhanced_pipeline_def height_def
      raw_heights_def terrain_def split: option.splits sum.splits prod.splits)

section \<open>Series of finite values\<close>

lemma series_min_Fin:
  "rs \<noteq> [] \<Longrightarrow> \<exists>lo. series_min (map Fin rs) = Fin lo \<and> lo \<in> set rs \<and> (\<forall>x\<in>set rs. lo \<le> x)"
proof (induction rs)
  case Nil
  then show ?case by simp
next
  case (Cons r rs)
  show ?case
  proof (cases "rs = []")
    case True
    then show ?thesis by simp
  next
    case False
    with Cons.IH obtain lo where lo: "series_min (map Fin rs) = Fin lo" "lo \<in> set rs"
      "\<forall>x\<in>set rs. lo \<le> x" by blast
    show ?thesis
    proof (cases "r < lo")
      case True
      then have "series_min (map Fin (r # rs)) = Fin r" using lo by (simp add: Let_def)
      moreover have "\<forall>x\<in>set (r # rs). r \<le> x" using True lo by auto
      ultimately show ?thesis by auto
    next
      case False
      then have "series_min (map Fin (r # rs)) = Fin lo" using lo by (simp add: Let_def)
      moreover have "\<forall>x\<in>set (r # rs). lo \<le> x" using False lo by auto
      ultimately show ?thesis using lo by auto
    qed
  qed
qed

lemma series_max_Fin:
  "rs \<noteq> [] \<Longrightarrow> \<exists>hi. series_max (map Fin rs) = Fin hi \<and> hi \<in> set rs \<and> (\<forall>x\<in>set rs. x \<le> hi)"
proof (induction rs)
  case Nil
  then show ?case by simp
next
  case (Cons r rs)
  show ?case
  proof (cases "rs = []")
    case True
    then show ?thesis by simp
  next
    case False
    with Cons.IH obtain hi where hi: "series_max (map Fin rs) = Fin hi" "hi \<in> set rs"
      "\<forall>x\<in>set rs. x \<le> hi" by blast
    show ?thesis
    proof (cases "hi < r")
      case True
      then have "series_max (map Fin (r # rs)) = Fin r" using hi by (simp add: Let_def)
      moreover have "\<forall>x\<in>set (r # rs). x \<le> r" using True hi by auto
      ultimately show ?thesis by auto
    next
      case False
      then have "series_max (map Fin (r # rs)) = Fin hi" using hi by (simp add: Let_def)
      moreover have "\<forall>x\<in>set (r # rs). x \<le> hi" using False hi by auto
      ultimately show ?thesis using hi by auto
    qed
  qed
qed

lemma finite_column: "list_all is_fin ms \<Longrightarrow> \<exists>rs. ms = map Fin rs"
proof (induction ms)
  case Nil
  show ?case by simp
next
  case (Cons m ms)
  then obtain rs where "ms = map Fin rs" by auto
  moreover from Cons.prems obtain a where "m = Fin a" by (cases m) auto
  ultimately have "m # ms = map Fin (a # rs)" by simp
  then show ?case by (rule exI)
qed

lemma z_step:
  assumes "lo < hi" "lo \<le> x"
  shows "fmul (fpow15 (fdiv (fsub (Fin x) (Fin lo)) (fsub (Fin hi) (Fin lo)))) (Fin 100) = Fin (curve lo hi x)"
proof -
  have "0 \<le> (x - lo) / (hi - lo)" using assms by simp
  moreover have "hi - lo \<noteq> 0" using assms by simp
  ultimately show ?thesis by (simp add: fsub_def curve_def)
qed

text \<open>
  On a column of finite values the heights are the curve between the least and the
  greatest value, or 50 throughout.
\<close>

lemma z_height_Fin:
  "\<exists>lo hi. (\<forall>x\<in>set rs. lo \<le> x \<and> x \<le> hi) \<and>
     z_height (map Fin rs) =
       (if lo < hi then map (\<lambda>x. Fin (curve lo hi x)) rs else replicate (length rs) (Fin 50))"
proof (cases "rs = []")
  case True
  then show ?thesis by (simp add: z_height_def)
next
  case False
  obtain lo where lo: "series_min (map Fin rs) = Fin lo" "\<forall>x\<in>set rs. lo \<le> x"
    using series_min_Fin [OF False] by blast
  obtain hi where hi: "series_max (map Fin rs) = Fin hi" "\<forall>x\<in>set rs. x \<le> hi"
    using series_max_Fin [OF False] by blast
  have "z_height (map Fin rs) =
       (if lo < hi then map (\<lambda>x. Fin (curve lo hi x)) rs else replicate (length rs) (Fin 50))"
  proof (cases "lo < hi")
    case True
    then show ?thesis using lo z_step [OF True]
      by (simp add: z_height_def hi(1) Let_def)
  next
    case False
    then show ?thesis by (simp add: z_height_def lo(1) hi(1) Let_def)
  qed
  then show ?thesis using lo(2) hi(2) by blast
qed

lemma curve_mono:
  assumes "lo < hi" "lo \<le> a" "a \<le> b"
  shows "curve lo hi a \<le> curve lo hi b"
proof -
  have "0 \<le> (a - lo) / (hi - lo)" using assms by simp
  moreover have "(a - lo) / (hi - lo) \<le> (b - lo) / (hi - lo)"
    using assms by (simp add: divide_right_mono)
  ultimately have "((a - lo) / (hi - lo)) powr (3 / 2) \<le> ((b - lo) / (hi - lo)) powr (3 / 2)"
    by (intro powr_mono2) simp_all
  then show ?thesis by (simp add: curve_def)
qed

lemma curve_range:
  assumes "lo < hi" "lo \<le> a" "a \<le> hi"
  shows "0 \<le> curve lo hi a \<and> curve lo hi a \<le> 100"
proof -
  have "curve lo hi a \<le> curve lo hi hi" using assms by (intro curve_mono) simp_all
  moreover have "curve lo hi hi = 100" using assms by (simp add: curve_def)
  moreover have "0 \<le> curve lo hi a" by (simp add: curve_def)
  ultimately show ?thesis by simp
qed


lemma z_height_range_Fin:
  assumes "i < length rs"
  shows "\<exists>x. z_height (map Fin rs) ! i = Fin x \<and> 0 \<le> x \<and> x \<le> 100"
proof -
  obtain lo hi where b: "\<forall>x\<in>set rs. lo \<le> x \<and> x \<le> hi"
    and z: "z_height (map Fin rs) =
       (if lo < hi then map (\<lambda>x. Fin (curve lo hi x)) rs else replicate (length rs) (Fin 50))"
    using z_height_Fin [of rs] by blast
  show ?thesis
  proof (cases "lo < hi")
    case True
    have "lo \<le> rs ! i" "rs ! i \<le> hi" using b assms by simp_all
    then have "0 \<le> curve lo hi (rs ! i) \<and> curve lo hi (rs ! i) \<le> 100"
      using True by (intro curve_range) simp_all
    then show ?thesis using True assms by (simp add: z)
  next
    case False
    then show ?thesis using assms by (simp add: z)
  qed
qed

section \<open>Well-formed tables and selected columns\<close>

lemma wf_column_length:
  "wf_table t \<Longrightarrow> columns t name = Some c \<Longrightarrow> col_len c = nrows t"
  by (simp add: wf_table_def)

lemma to_numeric_raise_length:
  "to_numeric_raise parse c = Inr xs \<Longrightarrow> length xs = col_len c"
  by (cases c) (auto split: if_splits)

lemma density_of_length: "length (density_of ps as) = min (length ps) (length as)"
  by (simp add: density_of_def fillna0_def replace_inf0_def)

lemma derive_value_length:
  assumes wf: "wf_table t" and dv: "derive_value parse t = Inr (value_col, vs)"
  shows "length vs = nrows t"
proof (cases "pop_col t")
  case None
  then show ?thesis using dv by (auto simp add: derive_value_def)
next
  case (Some pc)
  then obtain pcol ps where pcol: "columns t pc = Some pcol"
    and ps: "to_numeric_raise parse pcol = Inr ps"
    using dv by (auto simp add: derive_value_def split: option.splits sum.splits)
  have lps: "length ps = nrows t"
    using to_numeric_raise_length [OF ps] wf_column_length [OF wf pcol] by simp
  show ?thesis
  proof (cases "area_col_enh t")
    case None
    then show ?thesis using dv Some pcol ps lps by (simp add: derive_value_def)
  next
    case (Some ac)
    then obtain acol as where acol: "columns t ac = Some acol"
      and as: "to_numeric_raise parse acol = Inr as"
      using dv \<open>pop_col t = Some pc\<close> pcol ps
      by (auto simp add: derive_value_def split: option.splits sum.splits)
    have "length as = nrows t"
      using to_numeric_raise_length [OF as] wf_column_length [OF wf acol] by simp
    then show ?thesis
      using dv \<open>pop_col t = Some pc\<close> Some pcol ps acol as lps
      by (auto simp add: derive_value_def density_of_length)
  qed
qed

lemma first_candidate_mem: "first_candidate ok cs = Some c \<Longrightarrow> c \<in> set cs"
  by (induction cs) (auto split: if_splits)

lemma first_candidate_ok: "first_candidate ok cs = Some c \<Longrightarrow> ok c"
  by (induction cs) (auto split: if_splits)

lemma density_of_finite: "list_all is_fin (density_of ps as)"
proof -
  have "list_all is_fin (replace_inf0 (fillna0 xs))" for xs
  proof (induction xs)
    case Nil
    show ?case by (simp add: fillna0_def replace_inf0_def)
  next
    case (Cons x xs)
    then show ?case by (cases x) (simp_all add: fillna0_def replace_inf0_def)
  qed
  then show ?thesis by (simp add: density_of_def)
qed

section \<open>The heights of the basic variant\<close>

lemma fillna0_not_nan: "\<forall>x\<in>set (fillna0 xs). x \<noteq> NaN"
  by (auto simp add: fillna0_def)

lemma replace_in_place_not_nan:
  "\<forall>x\<in>set xs. x \<noteq> NaN \<Longrightarrow> \<forall>x\<in>set (replace_in_place cow xs). x \<noteq> NaN"
  by (auto simp add: replace_in_place_def replace_inf0_def)

lemma replace_in_place_finite: "list_all is_fin (replace_in_place False (fillna0 xs))"
proof (induction xs)
  case Nil
  show ?case by (simp add: replace_in_place_def fillna0_def replace_inf0_def)
next
  case (Cons x xs)
  then show ?case
    by (cases x) (simp_all add: replace_in_place_def fillna0_def replace_inf0_def)
qed

lemma basic_density_not_nan:
  assumes "basic_density cow pcol as = Inr d"
  shows "\<forall>x\<in>set d. x \<noteq> NaN"
proof -
  have "\<forall>x\<in>set (replace_in_place cow (fillna0 xs)). x \<noteq> NaN" for xs
    by (rule replace_in_place_not_nan [OF fillna0_not_nan])
  then show ?thesis using assms by (cases pcol) (auto split: if_splits)
qed

lemma basic_density_finite:
  assumes "basic_density False pcol as = Inr d"
  shows "list_all is_fin d"
  using assms by (cases pcol) (auto split: if_splits simp add: replace_in_place_finite)

text \<open>
  The derived metric of the basic variant is finite on the simulated path, and on the
  density path when the in-place replacement reaches the frame.
\<close>

lemma derive_metric_finite:
  assumes "derive_metric cow r parse g t = Inr (hc, ms, g')"
    and "hc = ''density'' \<and> \<not> cow \<or> hc = ''simulated_height''"
  shows "list_all is_fin ms"
proof (cases "population_col t")
  case None
  then show ?thesis using assms(1)
    by (auto simp add: derive_metric_def list_all_iff split: prod.splits)
next
  case (Some pc)
  then have pc: "pc \<in> set potential_pop_cols"
    unfolding population_col_def by (rule first_candidate_mem)
  show ?thesis
  proof (cases "area_col t")
    case None
    then have "hc = pc" using assms(1) Some
      by (auto simp add: derive_metric_def split: option.splits)
    then show ?thesis using pc assms(2) by (auto simp add: potential_pop_cols_def)
  next
    case (Some ac)
    then obtain pcol as where d: "basic_density cow pcol as = Inr ms" and hc: "hc = ''density''"
      using assms(1) \<open>population_col t = Some pc\<close>
      by (auto simp add: derive_metric_def split: option.splits sum.splits)
    from hc assms(2) have "\<not> cow" by simp
    then show ?thesis using d basic_density_finite by simp
  qed
qed

lemma fless_irrefl: "\<not> fless m m"
  by (cases m) simp_all

lemma series_replicate:
  "series_min (replicate n v) = (if n = 0 \<or> v = NaN then NaN else v) \<and>
   series_max (replicate n v) = (if n = 0 \<or> v = NaN then NaN else v)"
  by (induction n) (simp_all add: Let_def fless_irrefl)

text \<open>When all derived metrics are equal, every height of the basic variant is 50.\<close>

lemma z_height_constant: "z_height (replicate n v) = replicate n (Fin 50)"
  by (simp add: z_height_def series_replicate fless_irrefl Let_def)






section \<open>The heights of the enhanced variant\<close>

lemma series_max_zeros: "series_max (replicate n (Fin 0)) = (if n = 0 then NaN else Fin 0)"
  by (induction n) (simp_all add: Let_def)

lemma raw_height_zero: "raw_height (if n = 0 then NaN else Fin 0) (Fin 0) lo la tn = NaN"
  by (simp add: raw_height_def inf_of_sign_def)

lemma raw_heights_zeros:
  "\<forall>h\<in>set (raw_heights r g t (replicate n (Fin 0))). h = NaN"
proof
  fix h assume "h \<in> set (raw_heights r g t (replicate n (Fin 0)))"
  then obtain v lo la tn where
    z: "(v, lo, la, tn) \<in> set (zip (replicate n (Fin 0)) (zip (lon t) (zip (lat t) (terrain r g (nrows t)))))"
    and h: "h = raw_height (series_max (replicate n (Fin 0))) v lo la tn"
    by (auto simp add: raw_heights_def)
  from z have "v \<in> set (replicate n (Fin 0))" by (rule set_zip_leftD)
  then have "v = Fin 0" by simp
  then show "h = NaN" using h by (simp add: series_max_zeros raw_height_zero)
qed

lemma min_max_nan: "\<forall>h\<in>set hs. h = NaN \<Longrightarrow> \<forall>h\<in>set (min_max hs). h = NaN"
  by (auto simp add: min_max_def fsub_def)

text \<open>
  Without a population column every height of the enhanced variant is NaN, whatever the
  table and the generator.
\<close>

lemma height_nan_without_population:
  assumes "\<not> has_column t ''POP''" "\<not> has_column t ''POP100''" "\<not> has_column t ''POP20''"
  shows "\<exists>hs. enhanced_pipeline r parse g t = Inr (''population'', replicate (nrows t) (Fin 0), hs) \<and>
     (\<forall>h\<in>set hs. h = NaN)"
proof -
  have "pop_col t = None" using assms by (simp add: pop_col_def pop_candidates_def)
  then have "derive_value parse t = Inr (''population'', replicate (nrows t) (Fin 0))"
    by (simp add: derive_value_def)
  then have "enhanced_pipeline r parse g t =
      Inr (''population'', replicate (nrows t) (Fin 0), height r g t (replicate (nrows t) (Fin 0)))"
    by (simp add: enhanced_pipeline_def)
  moreover have "\<forall>h\<in>set (height r g t (replicate (nrows t) (Fin 0))). h = NaN"
    unfolding height_def by (rule min_max_nan [OF raw_heights_zeros])
  ultimately show ?thesis by blast
qed

text \<open>On a table of one record the height of the enhanced variant is never a number.\<close>

lemma min_max_single: "\<not> is_fin (min_max [h] ! 0)"
  by (cases h) (simp_all add: min_max_def fsub_def inf_of_sign_def Let_def)

lemma no_population_value:
  "derive_value parse no_population_table = Inr (''population'', [Fin 0, Fin 0])"
  by (simp add: derive_value_def no_population_table_def pop_col_def pop_candidates_def
      has_column_def nrows_def)

lemma no_population_terrain:
  "terrain counter_rng g (nrows no_population_table) = [0, 1 / 35]"
  by (simp add: terrain_def counter_rng_def no_population_table_def nrows_def upt_conv_Cons)

lemma no_population_raw:
  "raw_heights counter_rng g no_population_table [Fin 0, Fin 0] = [NaN, NaN]"
proof -
  have "lon no_population_table = [-97, -98]" "lat no_population_table = [30, 31]"
    by (simp_all add: no_population_table_def)
  then show ?thesis
    by (simp add: raw_heights_def no_population_terrain raw_height_def inf_of_sign_def)
qed

lemma single_record_value:
  "derive_value parse single_record_table = Inr (''density'', [Fin 100])"
  by (simp add: derive_value_def single_record_table_def pop_col_def pop_candidates_def
      area_col_enh_def area_candidates_def has_column_def density_of_def per_km2_def
      fillna0_def replace_inf0_def)

lemma single_record_raw:
  "raw_heights counter_rng g single_record_table [Fin 100] = [Fin (17 / 20 + wave (-97) 30)]"
proof -
  have "terrain counter_rng g (nrows single_record_table) = [0]"
    by (simp add: terrain_def counter_rng_def single_record_table_def nrows_def)
  moreover have "lon single_record_table = [-97]" "lat single_record_table = [30]"
    by (simp_all add: single_record_table_def)
  ultimately show ?thesis
    by (simp add: raw_heights_def raw_height_def)
qed

text \<open>
  Claim C1. The enhanced variant has no guard for the degenerate case. On a table with no
  population column every derived metric is 0, the division by their maximum 0 gives NaN,
  and every height is NaN. On a table of one record the second pass divides 0 by 0, and
  the height is NaN as well: neither a value in the unit interval nor the constant
  fallback. The basic variant keeps the heights of finite metrics between 0 and 100, and
  gives 50 when all are equal.
\<close>

theorem enhanced_height_nan:
  "enhanced_pipeline counter_rng parse g no_population_table =
     Inr (''population'', [Fin 0, Fin 0], [NaN, NaN]) \<and>
   enhanced_pipeline counter_rng parse g single_record_table =
     Inr (''density'', [Fin 100], [NaN])"
proof -
  have a: "height counter_rng g no_population_table [Fin 0, Fin 0] = [NaN, NaN]"
    by (simp add: height_def no_population_raw min_max_def fsub_def)
  have c: "height counter_rng g single_record_table [Fin 100] = [NaN]"
    by (simp add: height_def single_record_raw min_max_def fsub_def inf_of_sign_def)
  show ?thesis
    by (simp add: enhanced_pipeline_def no_population_value single_record_value a c)
qed

section \<open>The density\<close>

lemma density_of_nth:
  "length as = length ps \<Longrightarrow> i < length ps \<Longrightarrow>
   density_of ps as ! i =
     (if is_fin (per_km2 (ps ! i) (as ! i)) then per_km2 (ps ! i) (as ! i) else Fin 0)"
  by (cases "per_km2 (ps ! i) (as ! i)") (simp_all add: density_of_def fillna0_def replace_inf0_def)

lemma per_km2_positive: "0 < a \<Longrightarrow> per_km2 (Fin p) (Fin a) = Fin (p / (a / 1000000))"
  by (simp add: per_km2_def)

lemma per_km2_no_area: "a = Fin 0 \<or> a = NaN \<Longrightarrow> \<not> is_fin (per_km2 p a)"
  by (cases p) (auto simp add: per_km2_def inf_of_sign_def split: if_splits)

text \<open>
  Where the replacement of the infinities reaches the column, the density is as the
  specification has it. On a well-formed table, when a population column and a numeric
  area column are selected, the enhanced variant returns it for every population column
  that it can read, and the basic variant for a numeric population column when pandas
  replaces in place; under copy-on-write the basic variant returns the quotients with
  only the missing ones filled. The density of a record is its population divided by its
  area over 1,000,000 whenever the area is positive, and 0 whenever that quotient is not
  finite, as it is for an area that is zero or missing.
\<close>

lemma density_metric:
  assumes wf: "wf_table t"
    and pcol: "columns t pc = Some pcol" "to_numeric_raise parse pcol = Inr ps"
    and acol: "columns t ac = Some (NumCol as)"
    and row: "i < nrows t"
  shows
   "(population_col t = Some pc \<and> area_col t = Some ac \<and> pcol = NumCol ps \<longrightarrow>
       derive_metric False r parse g t = Inr (''density'', density_of ps as, g) \<and>
       derive_metric True r parse g t = Inr (''density'', fillna0 (map2 per_km2 ps as), g)) \<and>
    (pop_col t = Some pc \<and> area_col_enh t = Some ac \<longrightarrow>
       derive_value parse t = Inr (''density'', density_of ps as)) \<and>
    length (density_of ps as) = nrows t \<and>
    (\<forall>p a. ps ! i = Fin p \<and> as ! i = Fin a \<and> 0 < a \<longrightarrow>
       density_of ps as ! i = Fin (p / (a / 1000000))) \<and>
    (\<not> is_fin (per_km2 (ps ! i) (as ! i)) \<longrightarrow> density_of ps as ! i = Fin 0) \<and>
    (as ! i = Fin 0 \<or> as ! i = NaN \<longrightarrow> density_of ps as ! i = Fin 0)"
proof -
  have lps: "length ps = nrows t"
    using to_numeric_raise_length [OF pcol(2)] wf_column_length [OF wf pcol(1)] by simp
  have "length as = nrows t" using wf_column_length [OF wf acol] by simp
  then have len: "length as = length ps" and i: "i < length ps" using lps row by simp_all
  have basic: "derive_metric False r parse g t = Inr (''density'', density_of ps as, g) \<and>
       derive_metric True r parse g t = Inr (''density'', fillna0 (map2 per_km2 ps as), g)"
    if "population_col t = Some pc" "area_col t = Some ac" "pcol = NumCol ps"
    using that pcol acol by (simp add: derive_metric_def replace_in_place_def density_of_def)
  have enh: "derive_value parse t = Inr (''density'', density_of ps as)"
    if "pop_col t = Some pc" "area_col_enh t = Some ac"
    using that pcol acol by (simp add: derive_value_def)
  have l: "length (density_of ps as) = nrows t"
    using len lps by (simp add: density_of_length)
  have pos: "density_of ps as ! i = Fin (p / (a / 1000000))"
    if "ps ! i = Fin p" "as ! i = Fin a" "0 < a" for p a
    using that by (simp add: density_of_nth [OF len i] per_km2_positive)
  have nonfin: "density_of ps as ! i = Fin 0" if "\<not> is_fin (per_km2 (ps ! i) (as ! i))"
    using that by (simp add: density_of_nth [OF len i])
  have noarea: "density_of ps as ! i = Fin 0" if "as ! i = Fin 0 \<or> as ! i = NaN"
    using per_km2_no_area [OF that] by (simp add: density_of_nth [OF len i])
  show ?thesis using basic enh l pos nonfin noarea by blast
qed

lemma zero_area_selection:
  "population_col zero_area_table = Some ''POP100''" "area_col zero_area_table = Some ''ALAND''"
  "pop_col zero_area_table = Some ''POP100''" "area_col_enh zero_area_table = Some ''ALAND''"
  by (simp_all add: zero_area_table_def population_col_def potential_pop_cols_def
      pop_col_def pop_candidates_def has_column_def area_col_def potential_area_cols_def
      area_col_enh_def area_candidates_def valid_area_def series_sum_def)

lemma zero_area_density:
  "density_of [Fin 100, Fin 50, NaN] [Fin 1000000, Fin 0, Fin 2000000] = [Fin 100, Fin 0, Fin 0]"
  by (simp add: density_of_def per_km2_def fillna0_def replace_inf0_def inf_of_sign_def)

lemma zero_area_columns:
  "columns zero_area_table ''POP100'' = Some (NumCol [Fin 100, Fin 50, NaN])"
  "columns zero_area_table ''ALAND'' = Some (NumCol [Fin 1000000, Fin 0, Fin 2000000])"
  by (simp_all add: zero_area_table_def)

text \<open>
  Claim C2. Under copy-on-write the basic variant does not replace a density that is not
  finite. In the table below the second region has 50 inhabitants and no land area: its
  density is left infinite, where the claim has 0. The first region, of positive area,
  has the density of the claim and the third, of unknown population, the 0 of
  \<^verbatim>\<open>fillna\<close>. Without copy-on-write the basic variant returns the densities of the
  claim, and so does the enhanced variant, which assigns the replaced column.
\<close>

theorem density_keeps_infinity:
  "derive_metric True r parse g zero_area_table = Inr (''density'', [Fin 100, PInf, Fin 0], g) \<and>
   derive_metric False r parse g zero_area_table = Inr (''density'', [Fin 100, Fin 0, Fin 0], g) \<and>
   derive_value parse zero_area_table = Inr (''density'', [Fin 100, Fin 0, Fin 0])"
proof -
  have a: "derive_metric True r parse g zero_area_table =
      Inr (''density'', [Fin 100, PInf, Fin 0], g)"
    by (simp add: derive_metric_def zero_area_selection zero_area_columns replace_in_place_def
        per_km2_def fillna0_def inf_of_sign_def)
  have b: "derive_metric False r parse g zero_area_table =
      Inr (''density'', [Fin 100, Fin 0, Fin 0], g)"
    by (simp add: derive_metric_def zero_area_selection zero_area_columns replace_in_place_def
        per_km2_def fillna0_def replace_inf0_def inf_of_sign_def)
  have c: "derive_value parse zero_area_table = Inr (''density'', [Fin 100, Fin 0, Fin 0])"
    by (simp add: derive_value_def zero_area_selection zero_area_columns density_of_def
        per_km2_def fillna0_def replace_inf0_def inf_of_sign_def)
  from a b c show ?thesis by (intro conjI)
qed

lemma density_metric_example:
  "derive_metric False counter_rng parse_demo 0 zero_area_table =
     Inr (''density'', [Fin 100, Fin 0, Fin 0], 0) \<and>
   derive_value parse_demo zero_area_table = Inr (''density'', [Fin 100, Fin 0, Fin 0]) \<and>
   density_of [Fin 100, Fin 50, NaN] [Fin 1000000, Fin 0, Fin 2000000] ! 0 =
     Fin (100 / (1000000 / 1000000)) \<and>
   density_of [Fin 100, Fin 50, NaN] [Fin 1000000, Fin 0, Fin 2000000] ! 1 = Fin 0 \<and>
   density_of [Fin 100, Fin 50, NaN] [Fin 1000000, Fin 0, Fin 2000000] ! 2 = Fin 0"
proof -
  have num: "to_numeric_raise parse_demo (NumCol [Fin 100, Fin 50, NaN]) = Inr [Fin 100, Fin 50, NaN]"
    by simp
  have wf: "wf_table zero_area_table"
    by (simp add: wf_table_def zero_area_table_def nrows_def)
  have rows: "0 < nrows zero_area_table" "1 < nrows zero_area_table" "2 < nrows zero_area_table"
    by (simp_all add: zero_area_table_def nrows_def)
  note th = density_metric [OF wf zero_area_columns(1) num zero_area_columns(2), of _ counter_rng 0]
  have "derive_metric False counter_rng parse_demo 0 zero_area_table =
      Inr (''density'', density_of [Fin 100, Fin 50, NaN] [Fin 1000000, Fin 0, Fin 2000000], 0)"
    using th [OF rows(1)] zero_area_selection by simp
  moreover have "derive_value parse_demo zero_area_table =
      Inr (''density'', density_of [Fin 100, Fin 50, NaN] [Fin 1000000, Fin 0, Fin 2000000])"
    using th [OF rows(1)] zero_area_selection by simp
  moreover have "density_of [Fin 100, Fin 50, NaN] [Fin 1000000, Fin 0, Fin 2000000] ! 0 =
      Fin (100 / (1000000 / 1000000))"
    using th [OF rows(1)] by simp
  moreover have "density_of [Fin 100, Fin 50, NaN] [Fin 1000000, Fin 0, Fin 2000000] ! 1 = Fin 0"
    using th [OF rows(2)] by simp
  moreover have "density_of [Fin 100, Fin 50, NaN] [Fin 1000000, Fin 0, Fin 2000000] ! 2 = Fin 0"
    using th [OF rows(3)] by (simp add: per_km2_def)
  ultimately show ?thesis by (simp add: zero_area_density)
qed

section \<open>Column selection\<close>

lemma first_candidate_first: "first_present ok cs (first_candidate ok cs)"
proof (induction cs)
  case Nil
  show ?case by (simp add: first_present_def)
next
  case (Cons c cs)
  show ?case
  proof (cases "ok c")
    case True
    then have "\<exists>k<length (c # cs). (c # cs) ! k = c \<and> ok c \<and> (\<forall>j<k. \<not> ok ((c # cs) ! j))"
      by (intro exI [of _ 0]) simp
    then show ?thesis using True by (simp add: first_present_def)
  next
    case False
    show ?thesis
    proof (cases "first_candidate ok cs")
      case None
      then have "\<forall>k<length cs. \<not> ok (cs ! k)" using Cons by (simp add: first_present_def)
      then have "\<forall>k<length (c # cs). \<not> ok ((c # cs) ! k)"
        using False by (auto simp add: nth_Cons split: nat.splits)
      then show ?thesis using False None by (simp add: first_present_def)
    next
      case (Some d)
      then obtain k where k: "k < length cs" "cs ! k = d" "ok d" "\<forall>j<k. \<not> ok (cs ! j)"
        using Cons by (auto simp add: first_present_def)
      have "\<forall>j<Suc k. \<not> ok ((c # cs) ! j)"
        using False k(4) by (auto simp add: nth_Cons split: nat.splits)
      then have "\<exists>k<length (c # cs). (c # cs) ! k = d \<and> ok d \<and> (\<forall>j<k. \<not> ok ((c # cs) ! j))"
        using k by (intro exI [of _ "Suc k"]) simp
      then show ?thesis using False Some by (simp add: first_present_def)
    qed
  qed
qed

lemma first_present_unique:
  assumes "first_present ok cs a" "first_present ok cs b"
  shows "a = b"
proof (cases a)
  case None
  then show ?thesis using assms by (cases b) (auto simp add: first_present_def)
next
  case (Some c)
  then obtain k where k: "k < length cs" "cs ! k = c" "ok c" "\<forall>j<k. \<not> ok (cs ! j)"
    using assms(1) by (auto simp add: first_present_def)
  show ?thesis
  proof (cases b)
    case None
    then show ?thesis using assms(2) k by (auto simp add: first_present_def)
  next
    case (Some d)
    then obtain l where l: "l < length cs" "cs ! l = d" "ok d" "\<forall>j<l. \<not> ok (cs ! j)"
      using assms(2) by (auto simp add: first_present_def)
    have "k = l" using k l by (cases k l rule: linorder_cases) auto
    then show ?thesis using k l Some \<open>a = Some c\<close> by simp
  qed
qed

lemma first_present_second:
  "\<not> ok c0 \<Longrightarrow> ok c1 \<Longrightarrow> first_present ok [c0, c1, c2] (Some c1)"
  unfolding first_present_def by (simp, intro exI [of _ 1]) simp

lemma first_present_none:
  "\<not> ok c0 \<Longrightarrow> \<not> ok c1 \<Longrightarrow> \<not> ok c2 \<Longrightarrow> first_present ok [c0, c1, c2] None"
  by (auto simp add: first_present_def less_Suc_eq numeral_3_eq_3)

text \<open>
  Claim C3, amended. Each variant selects the population column as the first name of its
  own ordered list that is a column of the table, names being compared for equality: the
  basic variant from POP, POP100, POP20, the enhanced variant from POP100, POP20, POP. The
  only area candidate is ALAND. The basic variant selects it only if it is numeric with a
  positive sum; the enhanced variant selects it whenever the table has it. The selection
  depends on the columns of the table alone, so it is the same for every record.
\<close>

theorem column_selection:
  "first_present (has_column t) [''POP'', ''POP100'', ''POP20''] (population_col t) \<and>
   first_present (has_column t) [''POP100'', ''POP20'', ''POP''] (pop_col t) \<and>
   (has_column t c \<longleftrightarrow> c \<in> dom (columns t)) \<and>
   area_col t = (if valid_area t ''ALAND'' then Some ''ALAND'' else None) \<and>
   (valid_area t c \<longleftrightarrow> (\<exists>xs. columns t c = Some (NumCol xs) \<and> fless (Fin 0) (series_sum xs))) \<and>
   area_col_enh t = (if has_column t ''ALAND'' then Some ''ALAND'' else None) \<and>
   (columns t' = columns t \<longrightarrow>
      population_col t' = population_col t \<and> area_col t' = area_col t \<and>
      pop_col t' = pop_col t \<and> area_col_enh t' = area_col_enh t)"
proof -
  have a: "first_present (has_column t) [''POP'', ''POP100'', ''POP20''] (population_col t)"
    using first_candidate_first [of "has_column t" potential_pop_cols]
    by (simp add: population_col_def potential_pop_cols_def)
  have b: "first_present (has_column t) [''POP100'', ''POP20'', ''POP''] (pop_col t)"
    using first_candidate_first [of "has_column t" pop_candidates]
    by (simp add: pop_col_def pop_candidates_def)
  have c: "has_column t c \<longleftrightarrow> c \<in> dom (columns t)" by (auto simp add: has_column_def)
  have d: "area_col t = (if valid_area t ''ALAND'' then Some ''ALAND'' else None)"
    by (simp add: area_col_def potential_area_cols_def)
  have e: "valid_area t c \<longleftrightarrow> (\<exists>xs. columns t c = Some (NumCol xs) \<and> fless (Fin 0) (series_sum xs))"
    by (auto simp add: valid_area_def split: option.splits column.splits)
  have f: "area_col_enh t = (if has_column t ''ALAND'' then Some ''ALAND'' else None)"
    by (simp add: area_col_enh_def area_candidates_def)
  have g: "population_col t' = population_col t \<and> area_col t' = area_col t \<and>
      pop_col t' = pop_col t \<and> area_col_enh t' = area_col_enh t" if "columns t' = columns t"
  proof -
    have "has_column t' = has_column t" "valid_area t' = valid_area t"
      using that by (auto simp add: has_column_def valid_area_def fun_eq_iff)
    then show ?thesis
      by (simp add: population_col_def area_col_def pop_col_def area_col_enh_def)
  qed
  show ?thesis using a b c d e f g by blast
qed

text \<open>
  The enhanced variant selects an area column that is not valid: here ALAND sums to zero.
\<close>

theorem area_validity_counterexample:
  "area_col_enh invalid_area_table = Some ''ALAND'' \<and> \<not> valid_area invalid_area_table ''ALAND'' \<and>
   area_col invalid_area_table = None"
  by (simp add: invalid_area_table_def area_col_enh_def area_candidates_def has_column_def
      valid_area_def series_sum_def area_col_def potential_area_cols_def)

theorem column_selection_witness:
  "population_col scenario_table = Some ''POP100'' \<and>
   area_col scenario_table = Some ''ALAND'' \<and>
   area_col_enh invalid_area_table = Some ''ALAND'' \<and> area_col invalid_area_table = None \<and>
   population_col lower_case_table = None \<and> pop_col lower_case_table = None \<and>
   area_col lower_case_table = None \<and> area_col_enh lower_case_table = None"
proof -
  have h: "\<not> has_column scenario_table ''POP''" "has_column scenario_table ''POP100''"
    "valid_area scenario_table ''ALAND''"
    by (simp_all add: scenario_table_def has_column_def valid_area_def series_sum_def)
  have "first_present (has_column scenario_table) [''POP'', ''POP100'', ''POP20'']
      (population_col scenario_table)"
    using column_selection [of scenario_table] by (rule conjunct1)
  then have p: "population_col scenario_table = Some ''POP100''"
    using first_present_second [of "has_column scenario_table" "''POP''" "''POP100''" "''POP20''", OF h(1) h(2)]
    by (rule first_present_unique)
  have a: "area_col scenario_table = Some ''ALAND''"
    using column_selection [of scenario_table] h by simp
  have i: "has_column invalid_area_table ''ALAND''" "\<not> valid_area invalid_area_table ''ALAND''"
    by (simp_all add: invalid_area_table_def has_column_def valid_area_def series_sum_def)
  have b: "area_col_enh invalid_area_table = Some ''ALAND''" "area_col invalid_area_table = None"
    using column_selection [of invalid_area_table] i by simp_all
  have l: "\<not> has_column lower_case_table ''POP''" "\<not> has_column lower_case_table ''POP100''"
    "\<not> has_column lower_case_table ''POP20''" "\<not> has_column lower_case_table ''ALAND''"
    "\<not> valid_area lower_case_table ''ALAND''"
    by (simp_all add: lower_case_table_def has_column_def valid_area_def)
  have "first_present (has_column lower_case_table) [''POP'', ''POP100'', ''POP20'']
      (population_col lower_case_table)"
    using column_selection [of lower_case_table] by (rule conjunct1)
  then have c: "population_col lower_case_table = None"
    using first_present_none [of "has_column lower_case_table" "''POP''" "''POP100''" "''POP20''", OF l(1) l(2) l(3)]
    by (rule first_present_unique)
  have "first_present (has_column lower_case_table) [''POP100'', ''POP20'', ''POP'']
      (pop_col lower_case_table)"
    using column_selection [of lower_case_table] by blast
  then have d: "pop_col lower_case_table = None"
    using first_present_none [of "has_column lower_case_table" "''POP100''" "''POP20''" "''POP''", OF l(2) l(3) l(1)]
    by (rule first_present_unique)
  have e: "area_col lower_case_table = None" "area_col_enh lower_case_table = None"
    using column_selection [of lower_case_table] l by simp_all
  show ?thesis using p a b c d e by simp
qed

section \<open>The synthetic fallback\<close>

lemma no_candidate_none:
  assumes "\<not> has_column t ''POP''" "\<not> has_column t ''POP100''" "\<not> has_column t ''POP20''"
  shows "population_col t = None" "pop_col t = None"
  using assms by (simp_all add: population_col_def potential_pop_cols_def pop_col_def pop_candidates_def)

text \<open>
  Claim C4, amended. When the table has none of the columns POP, POP100 and POP20, the
  basic variant seeds the generator with 42 and gives each record one uniform draw times
  1000, whatever state the generator was in before, so that every run gives the same
  values; the enhanced variant gives every record the metric 0 and draws nothing.
\<close>

theorem synthetic_metric:
  assumes "\<not> has_column t ''POP''" "\<not> has_column t ''POP100''" "\<not> has_column t ''POP20''"
  shows
   "derive_metric cow r parse g t =
      Inr (''simulated_height'',
           map (\<lambda>u. Fin (u * 1000)) (fst (np_rand r (np_seed r 42) (nrows t))),
           snd (np_rand r (np_seed r 42) (nrows t))) \<and>
    (rng_sized r \<longrightarrow>
       length (map (\<lambda>u. Fin (u * 1000)) (fst (np_rand r (np_seed r 42) (nrows t)))) = nrows t) \<and>
    derive_metric cow r parse g' t = derive_metric cow r parse g t \<and>
    derive_value parse t = Inr (''population'', replicate (nrows t) (Fin 0))"
proof -
  have a: "derive_metric cow r parse h t =
      Inr (''simulated_height'',
           map (\<lambda>u. Fin (u * 1000)) (fst (np_rand r (np_seed r 42) (nrows t))),
           snd (np_rand r (np_seed r 42) (nrows t)))" for h
    using no_candidate_none(1) [OF assms]
    by (simp add: derive_metric_def split: prod.splits)
  have b: "derive_value parse t = Inr (''population'', replicate (nrows t) (Fin 0))"
    using no_candidate_none(2) [OF assms] by (simp add: derive_value_def)
  show ?thesis using a b by (simp add: rng_sized_def)
qed

lemma counter_rng_sized: "rng_sized counter_rng"
  by (simp add: rng_sized_def counter_rng_def)

lemma no_population_absent:
  "\<not> has_column no_population_table ''POP''" "\<not> has_column no_population_table ''POP100''"
  "\<not> has_column no_population_table ''POP20''"
  by (simp_all add: has_column_def no_population_table_def)

lemma counter_rand_2: "np_rand counter_rng (np_seed counter_rng 42) (nrows no_population_table) = ([1 / 5, 3 / 10], 44)"
  by (simp add: counter_rng_def no_population_table_def nrows_def upt_conv_Cons)

text \<open>
  Without a population column the enhanced variant returns zeros, not the values of the
  seeded generator.
\<close>

theorem synthetic_metric_counterexample:
  "derive_value parse_demo no_population_table = Inr (''population'', [Fin 0, Fin 0]) \<and>
   map (\<lambda>u. Fin (u * 1000)) (fst (np_rand counter_rng (np_seed counter_rng 42) (nrows no_population_table)))
     = [Fin 200, Fin 300]"
  by (simp add: no_population_value counter_rand_2)

theorem synthetic_metric_witness:
  "derive_metric False counter_rng parse_demo 7 no_population_table =
     Inr (''simulated_height'', [Fin 200, Fin 300], 44) \<and>
   length [Fin 200, Fin 300 :: fval] = nrows no_population_table \<and>
   derive_metric False counter_rng parse_demo 0 no_population_table =
     derive_metric False counter_rng parse_demo 7 no_population_table"
proof -
  note th = synthetic_metric [OF no_population_absent, of False counter_rng parse_demo 7 0]
  have "derive_metric False counter_rng parse_demo 7 no_population_table =
     Inr (''simulated_height'', [Fin 200, Fin 300], 44)"
    using th by (simp add: counter_rand_2)
  moreover have "length [Fin 200, Fin 300 :: fval] = nrows no_population_table"
    using th counter_rng_sized by (simp add: counter_rand_2)
  moreover have "derive_metric False counter_rng parse_demo 0 no_population_table =
     derive_metric False counter_rng parse_demo 7 no_population_table"
    using th by simp
  ultimately show ?thesis by simp
qed

section \<open>The raw population\<close>

lemma fillna0_nth:
  "i < length xs \<Longrightarrow> fillna0 xs ! i = (if xs ! i = NaN then Fin 0 else xs ! i)"
  by (simp add: fillna0_def)

text \<open>
  Claim C6, amended. In the basic variant, when a population column is selected and no
  valid area column is, the derived metric of a record is its population read as a
  number, and 0 where the cell is missing or is not a number. In the enhanced variant the
  raw population is the metric only when the table has no ALAND column at all; then, for
  a numeric population column, the metric of every record whose count is not missing is
  that count.
\<close>

theorem population_metric:
  assumes pcol: "columns t pc = Some pcol"
  shows
   "(population_col t = Some pc \<and> area_col t = None \<longrightarrow>
      derive_metric cow r parse g t = Inr (pc, fillna0 (to_numeric_coerce parse pcol), g) \<and>
      (\<forall>xs i. pcol = NumCol xs \<and> i < length xs \<longrightarrow>
         fillna0 (to_numeric_coerce parse pcol) ! i = (if xs ! i = NaN then Fin 0 else xs ! i)) \<and>
      (\<forall>ss i. pcol = StrCol ss \<and> i < length ss \<longrightarrow>
         fillna0 (to_numeric_coerce parse pcol) ! i =
           (case ss ! i of
              None \<Rightarrow> Fin 0
            | Some s \<Rightarrow> (case parse s of None \<Rightarrow> Fin 0 | Some v \<Rightarrow> if v = NaN then Fin 0 else v)))) \<and>
    (pop_col t = Some pc \<and> \<not> has_column t ''ALAND'' \<longrightarrow>
      (\<forall>xs. pcol = NumCol xs \<longrightarrow>
         (\<exists>vs. derive_value parse t = Inr (''population'', vs) \<and> length vs = length xs \<and>
            (\<forall>i<length xs. xs ! i \<noteq> NaN \<longrightarrow> vs ! i = xs ! i))))"
proof -
  have a: "derive_metric cow r parse g t = Inr (pc, fillna0 (to_numeric_coerce parse pcol), g)"
    if "population_col t = Some pc" "area_col t = None"
    using that pcol by (simp add: derive_metric_def)
  have b: "fillna0 (to_numeric_coerce parse pcol) ! i = (if xs ! i = NaN then Fin 0 else xs ! i)"
    if "pcol = NumCol xs" "i < length xs" for xs i
    using that by (simp add: fillna0_nth)
  have c: "fillna0 (to_numeric_coerce parse pcol) ! i =
           (case ss ! i of
              None \<Rightarrow> Fin 0
            | Some s \<Rightarrow> (case parse s of None \<Rightarrow> Fin 0 | Some v \<Rightarrow> if v = NaN then Fin 0 else v))"
    if "pcol = StrCol ss" "i < length ss" for ss i
    using that by (simp add: fillna0_nth split: option.splits)
  have d: "\<exists>vs. derive_value parse t = Inr (''population'', vs) \<and> length vs = length xs \<and>
            (\<forall>i<length xs. xs ! i \<noteq> NaN \<longrightarrow> vs ! i = xs ! i)"
    if "pop_col t = Some pc" "\<not> has_column t ''ALAND''" "pcol = NumCol xs" for xs
    using that pcol by (simp add: derive_value_def area_col_enh_def area_candidates_def)
  show ?thesis using a b c d by blast
qed

text \<open>
  With a population column and an ALAND column that sums to zero the enhanced variant
  returns a density, where the basic variant returns the population. On the raw
  population path it keeps a missing count as NaN and raises on text that is not a
  number.
\<close>

theorem population_metric_counterexample:
  "pop_col invalid_area_table = Some ''POP100'' \<and> \<not> valid_area invalid_area_table ''ALAND'' \<and>
   derive_value parse_demo invalid_area_table = Inr (''density'', [Fin 0, Fin 0]) \<and>
   derive_metric False counter_rng parse_demo 0 invalid_area_table = Inr (''POP100'', [Fin 5, Fin 7], 0) \<and>
   derive_value parse_demo missing_population_table = Inr (''population'', [NaN, Fin 5]) \<and>
   derive_value parse_demo text_population_table = Inl ValueError"
  by (simp add: invalid_area_table_def missing_population_table_def text_population_table_def
      pop_col_def pop_candidates_def has_column_def valid_area_def series_sum_def
      derive_value_def area_col_enh_def area_candidates_def density_of_def per_km2_def
      fillna0_def replace_inf0_def inf_of_sign_def derive_metric_def population_col_def
      potential_pop_cols_def area_col_def potential_area_cols_def parse_demo_def)

theorem population_metric_witness:
  "derive_metric False counter_rng parse_demo 0 text_population_table =
     Inr (''POP'', [Fin 100, Fin 0, Fin 0, Fin 200], 0) \<and>
   derive_metric False counter_rng parse_demo 0 missing_population_table =
     Inr (''POP100'', [Fin 0, Fin 5], 0) \<and>
   (\<exists>vs. derive_value parse_demo missing_population_table = Inr (''population'', vs) \<and>
      length vs = 2 \<and> vs ! 1 = Fin 5)"
proof -
  have sel: "population_col text_population_table = Some ''POP''"
    "area_col text_population_table = None"
    "population_col missing_population_table = Some ''POP100''"
    "area_col missing_population_table = None"
    "pop_col missing_population_table = Some ''POP100''"
    "\<not> has_column missing_population_table ''ALAND''"
    by (simp_all add: text_population_table_def missing_population_table_def population_col_def
        potential_pop_cols_def has_column_def area_col_def potential_area_cols_def valid_area_def
        pop_col_def pop_candidates_def)
  have c1: "columns text_population_table ''POP'' =
      Some (StrCol [Some ''100'', Some ''unknown'', None, Some ''200''])"
    by (simp add: text_population_table_def)
  have c2: "columns missing_population_table ''POP100'' = Some (NumCol [NaN, Fin 5])"
    by (simp add: missing_population_table_def)
  have "derive_metric False counter_rng parse_demo 0 text_population_table =
     Inr (''POP'', [Fin 100, Fin 0, Fin 0, Fin 200], 0)"
    using population_metric [OF c1, of False counter_rng parse_demo 0] sel
    by (simp add: fillna0_def parse_demo_def)
  moreover have "derive_metric False counter_rng parse_demo 0 missing_population_table =
     Inr (''POP100'', [Fin 0, Fin 5], 0)"
    using population_metric [OF c2, of False counter_rng parse_demo 0] sel
    by (simp add: fillna0_def)
  moreover have "\<exists>vs. derive_value parse_demo missing_population_table = Inr (''population'', vs) \<and>
      length vs = 2 \<and> vs ! 1 = Fin 5"
    using population_metric [OF c2, of False counter_rng parse_demo 0] sel by auto
  ultimately show ?thesis by blast
qed

section \<open>The enhanced height\<close>

lemma min_max_Fin:
  assumes "i < length rs" and lt: "fless (series_min (map Fin rs)) (series_max (map Fin rs))"
  shows "\<exists>x. min_max (map Fin rs) ! i = Fin x \<and> 0 \<le> x \<and> x \<le> 1"
proof -
  have ne: "rs \<noteq> []" using assms by auto
  obtain lo where lo: "series_min (map Fin rs) = Fin lo" "\<forall>x\<in>set rs. lo \<le> x"
    using series_min_Fin [OF ne] by blast
  obtain hi where hi: "series_max (map Fin rs) = Fin hi" "\<forall>x\<in>set rs. x \<le> hi"
    using series_max_Fin [OF ne] by blast
  have lh: "lo < hi" using lt lo hi by simp
  have b: "lo \<le> rs ! i" "rs ! i \<le> hi" using lo hi assms by simp_all
  have "min_max (map Fin rs) ! i = Fin ((rs ! i - lo) / (hi - lo))"
    using assms lh by (simp add: min_max_def lo hi fsub_def)
  moreover have "0 \<le> (rs ! i - lo) / (hi - lo)" using b lh by simp
  moreover have "(rs ! i - lo) / (hi - lo) \<le> 1" using b lh by simp
  ultimately show ?thesis by blast
qed

lemma raw_heights_nth:
  assumes "length (lat t) = nrows t" "length vs = nrows t" "rng_sized r" "i < nrows t"
  shows "raw_heights r g t vs ! i =
     raw_height (series_max vs) (vs ! i) (lon t ! i) (lat t ! i) (beta_noise r (nrows t) ! i * 0.2)"
proof -
  have "length (terrain r g (nrows t)) = nrows t"
    using assms(3) by (simp add: terrain_def rng_sized_def)
  then show ?thesis
    using assms by (simp add: raw_heights_def nrows_def terrain_def beta_noise_def rng_sized_def)
qed

text \<open>
  Claim C5. On a well-formed table, with a generator that returns samples of the size
  asked for, the height of a record of the enhanced variant before the second pass is its
  metric over the greatest metric, times 0.85, plus the wave at its centroid, plus its
  terrain noise: the wave is the sum of two sinusoidal terms with fixed constants, the
  noise the record's draw from the Beta(2, 5) sample of the seed 42, times 0.2. The final
  height is the min-max scaling of these values over the whole table; when they are
  finite and not all equal it lies between 0 and 1.
\<close>

theorem enhanced_height_formula:
  assumes wf: "wf_table t" and rng: "rng_sized r"
    and dv: "derive_value parse t = Inr (value_col, vs)" and row: "i < nrows t"
  shows
   "enhanced_pipeline r parse g t = Inr (value_col, vs, height r g t vs) \<and>
    raw_heights r g t vs ! i =
      fadd (fadd (fmul (fdiv (vs ! i) (series_max vs)) (Fin 0.85))
                 (Fin (spec_wave (lon t ! i) (lat t ! i))))
           (Fin (beta_noise r (nrows t) ! i * 0.2)) \<and>
    (\<forall>v m. vs ! i = Fin v \<and> series_max vs = Fin m \<and> m \<noteq> 0 \<longrightarrow>
       raw_heights r g t vs ! i =
         Fin (v / m * 0.85 + spec_wave (lon t ! i) (lat t ! i) + beta_noise r (nrows t) ! i * 0.2)) \<and>
    height r g t vs ! i =
      fdiv (fsub (raw_heights r g t vs ! i) (series_min (raw_heights r g t vs)))
           (fsub (series_max (raw_heights r g t vs)) (series_min (raw_heights r g t vs))) \<and>
    (list_all is_fin (raw_heights r g t vs) \<and>
     fless (series_min (raw_heights r g t vs)) (series_max (raw_heights r g t vs)) \<longrightarrow>
       (\<exists>x. height r g t vs ! i = Fin x \<and> 0 \<le> x \<and> x \<le> 1))"
proof -
  have lat: "length (lat t) = nrows t" using wf by (simp add: wf_table_def)
  have lvs: "length vs = nrows t" using derive_value_length [OF wf dv] .
  have len: "length (raw_heights r g t vs) = nrows t"
    using lat lvs rng by (simp add: raw_heights_def nrows_def terrain_def rng_sized_def)
  have a: "raw_heights r g t vs ! i =
      fadd (fadd (fmul (fdiv (vs ! i) (series_max vs)) (Fin 0.85))
                 (Fin (spec_wave (lon t ! i) (lat t ! i))))
           (Fin (beta_noise r (nrows t) ! i * 0.2))"
    using raw_heights_nth [OF lat lvs rng row]
    by (simp add: raw_height_def wave_def wave1_def wave2_def spec_wave_def)
  have b: "raw_heights r g t vs ! i =
         Fin (v / m * 0.85 + spec_wave (lon t ! i) (lat t ! i) + beta_noise r (nrows t) ! i * 0.2)"
    if "vs ! i = Fin v" "series_max vs = Fin m" "m \<noteq> 0" for v m
    using that by (simp add: a)
  have c: "height r g t vs ! i =
      fdiv (fsub (raw_heights r g t vs ! i) (series_min (raw_heights r g t vs)))
           (fsub (series_max (raw_heights r g t vs)) (series_min (raw_heights r g t vs)))"
    using len row by (simp add: height_def min_max_def)
  have d: "\<exists>x. height r g t vs ! i = Fin x \<and> 0 \<le> x \<and> x \<le> 1"
    if fin: "list_all is_fin (raw_heights r g t vs)"
      and lt: "fless (series_min (raw_heights r g t vs)) (series_max (raw_heights r g t vs))"
  proof -
    obtain rs where rs: "raw_heights r g t vs = map Fin rs" using finite_column [OF fin] by blast
    have "i < length rs" using len row rs by (metis length_map)
    then show ?thesis using min_max_Fin [of i rs] lt by (simp add: height_def rs)
  qed
  have e: "enhanced_pipeline r parse g t = Inr (value_col, vs, height r g t vs)"
    using dv by (simp add: enhanced_pipeline_def)
  show ?thesis using a b c d e by blast
qed

lemma origin_value: "derive_value parse_demo origin_table = Inr (''population'', [Fin 100, Fin 200])"
  by (simp add: derive_value_def origin_table_def pop_col_def pop_candidates_def has_column_def
      area_col_enh_def area_candidates_def)

lemma origin_noise: "beta_noise counter_rng (nrows origin_table) = [0, 1 / 7]"
  by (simp add: beta_noise_def counter_rng_def origin_table_def nrows_def upt_conv_Cons)

lemma origin_raw:
  "raw_heights counter_rng g origin_table [Fin 100, Fin 200] = [Fin (17 / 40), Fin (123 / 140)]"
proof -
  have "terrain counter_rng g (nrows origin_table) = [0, 1 / 35]"
    by (simp add: terrain_def counter_rng_def origin_table_def nrows_def upt_conv_Cons)
  moreover have "lon origin_table = [0, 0]" "lat origin_table = [0, 0]"
    by (simp_all add: origin_table_def)
  ultimately show ?thesis
    by (simp add: raw_heights_def raw_height_def wave_def wave1_def wave2_def)
qed

theorem enhanced_height_formula_witness:
  "enhanced_pipeline counter_rng parse_demo 0 origin_table =
     Inr (''population'', [Fin 100, Fin 200], height counter_rng 0 origin_table [Fin 100, Fin 200]) \<and>
   raw_heights counter_rng 0 origin_table [Fin 100, Fin 200] ! 1 =
     Fin (200 / 200 * 0.85 + spec_wave 0 0 + 1 / 7 * 0.2) \<and>
   height counter_rng 0 origin_table [Fin 100, Fin 200] ! 1 = Fin 1 \<and>
   height counter_rng 0 origin_table [Fin 100, Fin 200] ! 0 = Fin 0"
proof -
  have wf: "wf_table origin_table"
    by (simp add: wf_table_def origin_table_def nrows_def)
  have rows: "(1::nat) < nrows origin_table" "(0::nat) < nrows origin_table"
    by (simp_all add: origin_table_def nrows_def)
  note th1 = enhanced_height_formula [OF wf counter_rng_sized origin_value rows(1), of 0]
  note th0 = enhanced_height_formula [OF wf counter_rng_sized origin_value rows(2), of 0]
  have ll: "lon origin_table = [0, 0]" "lat origin_table = [0, 0]"
    by (simp_all add: origin_table_def)
  have mx: "series_max [Fin 100, Fin 200] = Fin 200" by (simp add: Let_def)
  have a: "enhanced_pipeline counter_rng parse_demo 0 origin_table =
     Inr (''population'', [Fin 100, Fin 200], height counter_rng 0 origin_table [Fin 100, Fin 200])"
    using th1 by (rule conjunct1)
  have b: "raw_heights counter_rng 0 origin_table [Fin 100, Fin 200] ! 1 =
     Fin (200 / 200 * 0.85 + spec_wave 0 0 + 1 / 7 * 0.2)"
    using th1 mx by (simp add: origin_noise ll)
  have c: "height counter_rng 0 origin_table [Fin 100, Fin 200] ! 1 = Fin 1"
    using th1 by (simp add: origin_raw fsub_def Let_def)
  have d: "height counter_rng 0 origin_table [Fin 100, Fin 200] ! 0 = Fin 0"
    using th0 by (simp add: origin_raw fsub_def Let_def)
  show ?thesis using a b c d by simp
qed

section \<open>Fatal errors and recoverable cases\<close>

text \<open>The basic deriver raises only when a text population column meets a valid area.\<close>

lemma derive_metric_total:
  assumes "numeric_density_input t"
  shows "\<exists>hc ms g'. derive_metric cow r parse g t = Inr (hc, ms, g') \<and>
     (population_col t = None \<longrightarrow> hc = ''simulated_height'') \<and>
     (\<forall>pc. population_col t = Some pc \<and> area_col t = None \<longrightarrow>
        hc = pc \<and> (\<forall>x\<in>set ms. x \<noteq> NaN)) \<and>
     (population_col t \<noteq> None \<and> area_col t \<noteq> None \<longrightarrow> hc = ''density'' \<and> (\<forall>x\<in>set ms. x \<noteq> NaN) \<and>
            (\<not> cow \<longrightarrow> list_all is_fin ms))"
proof (cases "population_col t")
  case None
  then show ?thesis by (simp add: derive_metric_def split: prod.splits)
next
  case (Some pc)
  then have "has_column t pc" unfolding population_col_def by (rule first_candidate_ok)
  then obtain pcol where pcol: "columns t pc = Some pcol" by (auto simp add: has_column_def)
  show ?thesis
  proof (cases "area_col t")
    case None
    have "\<forall>x\<in>set (fillna0 (to_numeric_coerce parse pcol)). x \<noteq> NaN"
      by (auto simp add: fillna0_def)
    then show ?thesis using Some None pcol by (simp add: derive_metric_def)
  next
    case (Some ac)
    then have "valid_area t ac" unfolding area_col_def by (rule first_candidate_ok)
    then obtain as where acol: "columns t ac = Some (NumCol as)"
      by (auto simp add: valid_area_def split: option.splits column.splits)
    obtain ps where ps: "pcol = NumCol ps"
      using assms \<open>population_col t = Some pc\<close> Some pcol
      by (cases pcol) (auto simp add: numeric_density_input_def)
    have "\<forall>x\<in>set (replace_in_place cow (fillna0 (map2 per_km2 ps as))). x \<noteq> NaN"
      by (rule replace_in_place_not_nan [OF fillna0_not_nan])
    moreover have "\<not> cow \<longrightarrow> list_all is_fin (replace_in_place cow (fillna0 (map2 per_km2 ps as)))"
      by (simp add: replace_in_place_finite)
    ultimately show ?thesis
      using \<open>population_col t = Some pc\<close> Some pcol acol ps
      by (simp add: derive_metric_def)
  qed
qed

lemma acquire_ok: "acquired w \<Longrightarrow> snd (acquire w) = True"
  by (auto simp add: acquired_def created_def acquire_def fetch_def Let_def
      split: option.splits prod.splits download_outcome.splits)

lemma acquire_makedirs:
  "\<not> folder_exists w \<Longrightarrow> makedirs w = Some e \<Longrightarrow>
   acquire w = ([''Attempting to download shapefile from: '' @ shapefile_url] @
     [''An unexpected error occurred during download/extraction: '' @ e], False)"
  by (simp add: acquire_def)

lemma acquire_fetch:
  assumes "created w" "fetch w = (out, False)"
  shows "\<exists>pre. acquire w = (pre @ out, False)"
proof (cases "folder_exists w")
  case True
  then show ?thesis using assms by (simp add: acquire_def) 
next
  case False
  then have "makedirs w = None" using assms by (simp add: created_def)
  then have "acquire w = (([''Attempting to download shapefile from: '' @ shapefile_url] @
      [''Created directory: '' @ extract_to_folder]) @ out, False)"
    using False assms by (simp add: acquire_def)
  then show ?thesis by blast
qed

lemma exited_of_acquire:
  "acquire w = (out, False) \<Longrightarrow> run_basic cow r parse g w = Exited out"
  by (simp add: run_basic_def)

lemma exitedI:
  "run_basic cow r parse g w = Exited (out @ [msg]) \<Longrightarrow>
   \<exists>out. run_basic cow r parse g w = Exited (out @ [msg])"
  by (rule exI)

lemma exit_makedirs:
  assumes "\<not> folder_exists w" "makedirs w = Some e"
  shows "\<exists>out. run_basic cow r parse g w =
     Exited (out @ [''An unexpected error occurred during download/extraction: '' @ e])"
  using exited_of_acquire [OF acquire_makedirs [OF assms], of cow r parse g] by (rule exitedI)

lemma exit_fetch:
  assumes "created w" "fetch w = (pre @ [msg], False)"
  shows "\<exists>out. run_basic cow r parse g w = Exited (out @ [msg])"
proof -
  obtain p where "acquire w = (p @ pre @ [msg], False)"
    using acquire_fetch [OF assms] by blast
  then have "run_basic cow r parse g w = Exited (p @ pre @ [msg])" by (rule exited_of_acquire)
  then have "run_basic cow r parse g w = Exited ((p @ pre) @ [msg])" by (simp only: append_assoc)
  then show ?thesis by (rule exitedI)
qed

lemma exit_request:
  assumes "created w" "\<not> shapefile_exists w" "download w = RequestException e"
  shows "\<exists>out. run_basic cow r parse g w = Exited (out @ [''Error downloading file: '' @ e])"
proof -
  have "fetch w = ([] @ [''Error downloading file: '' @ e], False)"
    using assms by (simp add: fetch_def)
  then show ?thesis by (rule exit_fetch [OF assms(1)])
qed

lemma exit_bad_zip:
  assumes "created w" "\<not> shapefile_exists w" "download w = BadZipFile \<or> download w = BadZipEntry"
  shows "\<exists>out. run_basic cow r parse g w =
     Exited (out @ [''Error: Downloaded file is not a valid ZIP archive.''])"
  using assms(3)
proof
  assume "download w = BadZipFile"
  then have "fetch w = ([] @ [''Error: Downloaded file is not a valid ZIP archive.''], False)"
    using assms by (simp add: fetch_def)
  then show ?thesis by (rule exit_fetch [OF assms(1)])
next
  assume "download w = BadZipEntry"
  then have "fetch w = ([''Extracting files to: '' @ extract_to_folder] @
      [''Error: Downloaded file is not a valid ZIP archive.''], False)"
    using assms by (simp add: fetch_def)
  then show ?thesis by (rule exit_fetch [OF assms(1)])
qed

lemma exit_extract:
  assumes "created w" "\<not> shapefile_exists w" "download w = ExtractError e"
  shows "\<exists>out. run_basic cow r parse g w =
     Exited (out @ [''An unexpected error occurred during download/extraction: '' @ e])"
proof -
  have "fetch w = ([''Extracting files to: '' @ extract_to_folder] @
      [''An unexpected error occurred during download/extraction: '' @ e], False)"
    using assms by (simp add: fetch_def)
  then show ?thesis by (rule exit_fetch [OF assms(1)])
qed

lemma exit_load:
  assumes "acquired w" "read_file w = Inl e"
  shows "\<exists>out. run_basic cow r parse g w = Exited (out @ [''Error loading shapefile: '' @ e])"
proof -
  obtain pre where pre: "acquire w = (pre, True)"
    using acquire_ok [OF assms(1)] by (cases "acquire w") auto
  have "load w = ([''Loading shapefile: '' @ shapefile_path] @ [''Error loading shapefile: '' @ e], None)"
    using assms(2) by (simp add: load_def)
  then have "run_basic cow r parse g w = Exited (pre @ [''Loading shapefile: '' @ shapefile_path] @
      [''Error loading shapefile: '' @ e])"
    using pre by (simp add: run_basic_def)
  then have "run_basic cow r parse g w = Exited ((pre @ [''Loading shapefile: '' @ shapefile_path]) @
      [''Error loading shapefile: '' @ e])"
    by (simp only: append_assoc)
  then show ?thesis by (rule exitedI)
qed

lemma saved_after_load:
  assumes "acquired w" "read_file w = Inr (crs, t)" "numeric_density_input t"
  shows "\<exists>out hc ms. run_basic cow r parse g w = Saved out output_html_file (hc, ms, z_height ms) \<and>
         (population_col t = None \<longrightarrow> hc = ''simulated_height'') \<and>
         (\<forall>pc. population_col t = Some pc \<and> area_col t = None \<longrightarrow>
            hc = pc \<and> (\<forall>x\<in>set ms. x \<noteq> NaN)) \<and>
         (population_col t \<noteq> None \<and> area_col t \<noteq> None \<longrightarrow>
            hc = ''density'' \<and> (\<forall>x\<in>set ms. x \<noteq> NaN) \<and>
            (\<not> cow \<longrightarrow> list_all is_fin ms))"
proof -
  obtain pre where pre: "acquire w = (pre, True)"
    using acquire_ok [OF assms(1)] by (cases "acquire w") auto
  obtain out' where l: "load w = (out', Some t)"
    using assms(2) by (simp add: load_def)
  have run: "run_basic cow r parse g w = Saved (pre @ out') output_html_file (hc, ms, z_height ms)"
    if "derive_metric cow r parse g t = Inr (hc, ms, g')" for hc ms g'
    using pre l that by (simp add: run_basic_def basic_pipeline_def)
  from derive_metric_total [OF assms(3), of cow r parse g]
  obtain hc where "\<exists>ms g'. derive_metric cow r parse g t = Inr (hc, ms, g') \<and>
     (population_col t = None \<longrightarrow> hc = ''simulated_height'') \<and>
     (\<forall>pc. population_col t = Some pc \<and> area_col t = None \<longrightarrow>
        hc = pc \<and> (\<forall>x\<in>set ms. x \<noteq> NaN)) \<and>
     (population_col t \<noteq> None \<and> area_col t \<noteq> None \<longrightarrow> hc = ''density'' \<and> (\<forall>x\<in>set ms. x \<noteq> NaN) \<and>
            (\<not> cow \<longrightarrow> list_all is_fin ms))"
    by (rule exE)
  then obtain ms where "\<exists>g'. derive_metric cow r parse g t = Inr (hc, ms, g') \<and>
     (population_col t = None \<longrightarrow> hc = ''simulated_height'') \<and>
     (\<forall>pc. population_col t = Some pc \<and> area_col t = None \<longrightarrow>
        hc = pc \<and> (\<forall>x\<in>set ms. x \<noteq> NaN)) \<and>
     (population_col t \<noteq> None \<and> area_col t \<noteq> None \<longrightarrow> hc = ''density'' \<and> (\<forall>x\<in>set ms. x \<noteq> NaN) \<and>
            (\<not> cow \<longrightarrow> list_all is_fin ms))"
    by (rule exE)
  then obtain g' where mp: "derive_metric cow r parse g t = Inr (hc, ms, g') \<and>
     (population_col t = None \<longrightarrow> hc = ''simulated_height'') \<and>
     (\<forall>pc. population_col t = Some pc \<and> area_col t = None \<longrightarrow>
        hc = pc \<and> (\<forall>x\<in>set ms. x \<noteq> NaN)) \<and>
     (population_col t \<noteq> None \<and> area_col t \<noteq> None \<longrightarrow> hc = ''density'' \<and> (\<forall>x\<in>set ms. x \<noteq> NaN) \<and>
            (\<not> cow \<longrightarrow> list_all is_fin ms))"
    by (rule exE)
  have m: "derive_metric cow r parse g t = Inr (hc, ms, g')" using mp by (rule conjunct1)
  have p: "(population_col t = None \<longrightarrow> hc = ''simulated_height'') \<and>
     (\<forall>pc. population_col t = Some pc \<and> area_col t = None \<longrightarrow>
        hc = pc \<and> (\<forall>x\<in>set ms. x \<noteq> NaN)) \<and>
     (population_col t \<noteq> None \<and> area_col t \<noteq> None \<longrightarrow> hc = ''density'' \<and> (\<forall>x\<in>set ms. x \<noteq> NaN) \<and>
            (\<not> cow \<longrightarrow> list_all is_fin ms))"
    using mp by (rule conjunct2)
  have "run_basic cow r parse g w = Saved (pre @ out') output_html_file (hc, ms, z_height ms) \<and>
     ((population_col t = None \<longrightarrow> hc = ''simulated_height'') \<and>
     (\<forall>pc. population_col t = Some pc \<and> area_col t = None \<longrightarrow>
        hc = pc \<and> (\<forall>x\<in>set ms. x \<noteq> NaN)) \<and>
     (population_col t \<noteq> None \<and> area_col t \<noteq> None \<longrightarrow> hc = ''density'' \<and> (\<forall>x\<in>set ms. x \<noteq> NaN) \<and>
            (\<not> cow \<longrightarrow> list_all is_fin ms)))"
    using run [OF m] p by (rule conjI)
  then show ?thesis by (intro exI)
qed

text \<open>
  Claim C9. In \<^verbatim>\<open>visualize_texas.py\<close> a failure to make the folder, a request error,
  an invalid archive, a failed extraction and a failure to read the shapefile each end
  the run in \<^verbatim>\<open>exit()\<close> right after the diagnostic line, and nothing is written. After
  a successful load the run always writes its output file when the table has no
  population column (simulated heights), when it has no valid area column (raw
  population, missing and unreadable cells replaced by 0), and when the density is
  computed from a numeric population column (zero substituted for every density that is
  missing; every density finite, with zero substituted for a division by zero, when the
  in-place replacement reaches the frame).
\<close>

theorem fatal_errors_exit:
  "(\<forall>e. \<not> folder_exists w \<and> makedirs w = Some e \<longrightarrow>
      (\<exists>out. run_basic cow r parse g w =
         Exited (out @ [''An unexpected error occurred during download/extraction: '' @ e]))) \<and>
   (\<forall>e. created w \<and> \<not> shapefile_exists w \<and> download w = RequestException e \<longrightarrow>
      (\<exists>out. run_basic cow r parse g w = Exited (out @ [''Error downloading file: '' @ e]))) \<and>
   (created w \<and> \<not> shapefile_exists w \<and>
    (download w = BadZipFile \<or> download w = BadZipEntry) \<longrightarrow>
      (\<exists>out. run_basic cow r parse g w =
         Exited (out @ [''Error: Downloaded file is not a valid ZIP archive.'']))) \<and>
   (\<forall>e. created w \<and> \<not> shapefile_exists w \<and> download w = ExtractError e \<longrightarrow>
      (\<exists>out. run_basic cow r parse g w =
         Exited (out @ [''An unexpected error occurred during download/extraction: '' @ e]))) \<and>
   (\<forall>e. acquired w \<and> read_file w = Inl e \<longrightarrow>
      (\<exists>out. run_basic cow r parse g w = Exited (out @ [''Error loading shapefile: '' @ e]))) \<and>
   (\<forall>crs t. acquired w \<and> read_file w = Inr (crs, t) \<and> numeric_density_input t \<longrightarrow>
      (\<exists>out hc ms. run_basic cow r parse g w = Saved out output_html_file (hc, ms, z_height ms) \<and>
         (population_col t = None \<longrightarrow> hc = ''simulated_height'') \<and>
         (\<forall>pc. population_col t = Some pc \<and> area_col t = None \<longrightarrow>
            hc = pc \<and> (\<forall>x\<in>set ms. x \<noteq> NaN)) \<and>
         (population_col t \<noteq> None \<and> area_col t \<noteq> None \<longrightarrow>
            hc = ''density'' \<and> (\<forall>x\<in>set ms. x \<noteq> NaN) \<and>
            (\<not> cow \<longrightarrow> list_all is_fin ms))))"
proof -
  have a: "\<forall>e. \<not> folder_exists w \<and> makedirs w = Some e \<longrightarrow>
      (\<exists>out. run_basic cow r parse g w =
         Exited (out @ [''An unexpected error occurred during download/extraction: '' @ e]))"
    by (intro allI impI, elim conjE) (rule exit_makedirs)
  have b: "\<forall>e. created w \<and> \<not> shapefile_exists w \<and> download w = RequestException e \<longrightarrow>
      (\<exists>out. run_basic cow r parse g w = Exited (out @ [''Error downloading file: '' @ e]))"
    by (intro allI impI, elim conjE) (rule exit_request)
  have c: "created w \<and> \<not> shapefile_exists w \<and>
    (download w = BadZipFile \<or> download w = BadZipEntry) \<longrightarrow>
      (\<exists>out. run_basic cow r parse g w =
         Exited (out @ [''Error: Downloaded file is not a valid ZIP archive.'']))"
    by (intro allI impI, elim conjE) (rule exit_bad_zip)
  have d: "\<forall>e. created w \<and> \<not> shapefile_exists w \<and> download w = ExtractError e \<longrightarrow>
      (\<exists>out. run_basic cow r parse g w =
         Exited (out @ [''An unexpected error occurred during download/extraction: '' @ e]))"
    by (intro allI impI, elim conjE) (rule exit_extract)
  have e: "\<forall>e. acquired w \<and> read_file w = Inl e \<longrightarrow>
      (\<exists>out. run_basic cow r parse g w = Exited (out @ [''Error loading shapefile: '' @ e]))"
    by (intro allI impI, elim conjE) (rule exit_load)
  have f: "\<forall>crs t. acquired w \<and> read_file w = Inr (crs, t) \<and> numeric_density_input t \<longrightarrow>
      (\<exists>out hc ms. run_basic cow r parse g w = Saved out output_html_file (hc, ms, z_height ms) \<and>
         (population_col t = None \<longrightarrow> hc = ''simulated_height'') \<and>
         (\<forall>pc. population_col t = Some pc \<and> area_col t = None \<longrightarrow>
            hc = pc \<and> (\<forall>x\<in>set ms. x \<noteq> NaN)) \<and>
         (population_col t \<noteq> None \<and> area_col t \<noteq> None \<longrightarrow>
            hc = ''density'' \<and> (\<forall>x\<in>set ms. x \<noteq> NaN) \<and>
            (\<not> cow \<longrightarrow> list_all is_fin ms)))"
    by (intro allI impI, elim conjE) (rule saved_after_load)
  from a b c d e f show ?thesis by (intro conjI)
qed

theorem fatal_errors_exit_witness:
  "(\<exists>out. run_basic False counter_rng parse_demo 0 world_bad_zip =
      Exited (out @ [''Error: Downloaded file is not a valid ZIP archive.''])) \<and>
   (\<exists>out. run_basic False counter_rng parse_demo 0 world_unreadable =
      Exited (out @ [''Error loading shapefile: '' @ ''Unable to open tl_2024_48_bg.shx''])) \<and>
   (\<exists>out ms. run_basic False counter_rng parse_demo 0 world_tiger =
      Saved out output_html_file (''simulated_height'', ms, z_height ms))"
proof -
  have zip: "created world_bad_zip \<and> \<not> shapefile_exists world_bad_zip \<and>
      (download world_bad_zip = BadZipFile \<or> download world_bad_zip = BadZipEntry)"
    by (simp add: world_bad_zip_def created_def)
  have a: "\<exists>out. run_basic False counter_rng parse_demo 0 world_bad_zip =
      Exited (out @ [''Error: Downloaded file is not a valid ZIP archive.''])"
    using zip
    by (rule mp [OF fatal_errors_exit [of world_bad_zip False counter_rng parse_demo 0,
          THEN conjunct2, THEN conjunct2, THEN conjunct1]])
  have unreadable: "acquired world_unreadable \<and>
      read_file world_unreadable = Inl ''Unable to open tl_2024_48_bg.shx''"
    by (simp add: world_unreadable_def acquired_def created_def)
  have b: "\<exists>out. run_basic False counter_rng parse_demo 0 world_unreadable =
      Exited (out @ [''Error loading shapefile: '' @ ''Unable to open tl_2024_48_bg.shx''])"
    using unreadable
    by (rule mp [OF fatal_errors_exit [of world_unreadable False counter_rng parse_demo 0,
          THEN conjunct2, THEN conjunct2, THEN conjunct2, THEN conjunct2, THEN conjunct1,
          THEN spec]])
  have none: "population_col no_population_table = None"
    by (rule no_candidate_none(1) [OF no_population_absent])
  have tiger: "acquired world_tiger \<and>
      read_file world_tiger = Inr (''EPSG:4269'', no_population_table) \<and>
      numeric_density_input no_population_table"
    by (simp add: world_tiger_def acquired_def created_def numeric_density_input_def none)
  have "\<exists>out hc ms. run_basic False counter_rng parse_demo 0 world_tiger =
        Saved out output_html_file (hc, ms, z_height ms) \<and>
      (population_col no_population_table = None \<longrightarrow> hc = ''simulated_height'') \<and>
      (\<forall>pc. population_col no_population_table = Some pc \<and> area_col no_population_table = None \<longrightarrow>
         hc = pc \<and> (\<forall>x\<in>set ms. x \<noteq> NaN)) \<and>
      (population_col no_population_table \<noteq> None \<and> area_col no_population_table \<noteq> None \<longrightarrow>
         hc = ''density'' \<and> (\<forall>x\<in>set ms. x \<noteq> NaN) \<and>
            (\<not> False \<longrightarrow> list_all is_fin ms))"
    using tiger
    by (rule mp [OF fatal_errors_exit [of world_tiger False counter_rng parse_demo 0,
          THEN conjunct2, THEN conjunct2, THEN conjunct2, THEN conjunct2, THEN conjunct2,
          THEN spec, THEN spec]])
  then obtain out hc ms where
    run: "run_basic False counter_rng parse_demo 0 world_tiger =
        Saved out output_html_file (hc, ms, z_height ms)"
    and hc: "population_col no_population_table = None \<longrightarrow> hc = ''simulated_height''"
    by (elim exE conjE)
  have "hc = ''simulated_height''" using none by (rule mp [OF hc])
  then have "run_basic False counter_rng parse_demo 0 world_tiger =
      Saved out output_html_file (''simulated_height'', ms, z_height ms)"
    using run by (simp only:)
  then have c: "\<exists>out ms. run_basic False counter_rng parse_demo 0 world_tiger =
      Saved out output_html_file (''simulated_height'', ms, z_height ms)"
    by (intro exI)
  from a b c show ?thesis by (intro conjI)
qed

end
